theory Spec2Isabelle
  imports Main "HOL-Library.Multiset"
begin

section \<open>Data model\<close>

text \<open>
  The episode controller of podverse-api (\<^verbatim>\<open>src/controllers/episode.ts\<close>) works on a
  relational store through TypeORM repositories. The store is modelled as a record of
  tables, each table a list of rows in storage order. Identifiers are the short strings
  the entities carry; instants are the milliseconds of \<^verbatim>\<open>Date.getTime()\<close>.

  Two entities have fields of the same name (\<^verbatim>\<open>id\<close>, \<^verbatim>\<open>isPublic\<close>, \<^verbatim>\<open>title\<close>), so
  every field carries its entity as a prefix: \<open>ep_\<close> for Episode, \<open>mr_\<close> for MediaRef,
  \<open>pc_\<close> for Podcast, \<open>re_\<close> for the two recent-episode tables. Columns that no
  function of the controller reads or writes (duration, guid, mediaUrl and the like)
  are left out.
\<close>

type_synonym ident = string
type_synonym instant = int

datatype error =
    Error string
  | NotFound string
  | SyntaxError string
  | RequestError string
  | QueryFailedError string

record episode =
  ep_id :: ident
  ep_description :: "string option"
  ep_isPublic :: bool
  ep_podcastId :: ident
  ep_title :: string
  ep_pubDate :: "instant option"
  ep_pastHourTotalUniquePageviews :: int
  ep_pastDayTotalUniquePageviews :: int
  ep_pastWeekTotalUniquePageviews :: int
  ep_pastMonthTotalUniquePageviews :: int
  ep_pastYearTotalUniquePageviews :: int
  ep_pastAllTimeTotalUniquePageviews :: int
  ep_chaptersUrl :: "string option"
  ep_chaptersUrlLastParsed :: "instant option"

record mediaRef =
  mr_id :: ident
  mr_episodeId :: ident
  mr_startTime :: int
  mr_endTime :: "int option"
  mr_title :: "string option"
  mr_imageUrl :: "string option"
  mr_linkUrl :: "string option"
  mr_isOfficialChapter :: bool
  mr_isPublic :: bool
  mr_owner :: ident

record podcast =
  pc_id :: ident
  pc_categories :: "ident list"

text \<open>
  \<^verbatim>\<open>RecentEpisodeByCategory\<close> and \<^verbatim>\<open>RecentEpisodeByPodcast\<close> have the same shape: an
  episode id, the grouping key (\<^verbatim>\<open>categoryId\<close> or \<^verbatim>\<open>podcastId\<close>) and the publication
  date.
\<close>

record recentEpisode =
  re_episodeId :: ident
  re_groupId :: ident
  re_pubDate :: instant

text \<open>
  What \<^verbatim>\<open>console.log\<close> prints: a label with an error, or a label with a number.
\<close>

datatype logLine =
    LogError string error
  | LogCount string nat

text \<open>
  The world a call runs in: the five tables, the console, and the urls handed to
  \<^verbatim>\<open>request\<close> so far (one entry per fetch of a remote document).
\<close>

record world =
  episodes :: "episode list"
  mediaRefs :: "mediaRef list"
  podcasts :: "podcast list"
  recentEpisodeByCategory :: "recentEpisode list"
  recentEpisodeByPodcast :: "recentEpisode list"
  console :: "logLine list"
  requests :: "string list"

subsection \<open>The chapters document and the media-reference controller\<close>

text \<open>
  The remote document is JSON of the shape \<^verbatim>\<open>{chapters: [{startTime, title, img?, url?}]}\<close>.
  A key that is absent is \<open>None\<close>. \<^verbatim>\<open>startTime\<close> is taken as an integer number of
  seconds, which is what the integer column of the media reference holds. A text that
  parses to something else (\<^verbatim>\<open>null\<close>, or a \<^verbatim>\<open>chapters\<close> value that is not a list) makes
  the body of the \<^verbatim>\<open>try\<close> throw a \<^verbatim>\<open>TypeError\<close>, which the same handler catches: it is
  counted among the failures of \<^verbatim>\<open>JSON.parse\<close>.
\<close>

record remoteChapter =
  rc_startTime :: int
  rc_title :: "string option"
  rc_img :: "string option"
  rc_url :: "string option"

record parsedResponse =
  chapters :: "remoteChapter list option"

text \<open>
  The raw row of the query of lines 286-292: \<^verbatim>\<open>id\<close>, \<^verbatim>\<open>isOfficialChapter\<close>, \<^verbatim>\<open>startTime\<close>.
\<close>

record rawChapter =
  raw_id :: ident
  raw_isOfficialChapter :: bool
  raw_startTime :: int

text \<open>
  The plain object handed to \<^verbatim>\<open>updateMediaRef\<close> and \<^verbatim>\<open>createMediaRef\<close>: a key that is
  not written in the object literal is \<open>None\<close>; a key written with the value \<^verbatim>\<open>null\<close>
  is \<open>Some None\<close>.
\<close>

record mediaRefObj =
  obj_id :: "ident option"
  obj_imageUrl :: "string option option"
  obj_isOfficialChapter :: "bool option"
  obj_isPublic :: "bool option"
  obj_linkUrl :: "string option option"
  obj_startTime :: "int option"
  obj_title :: "string option option"
  obj_owner :: "ident option"
  obj_episodeId :: "ident option"

definition emptyObj :: mediaRefObj where
  "emptyObj = \<lparr>obj_id = None, obj_imageUrl = None, obj_isOfficialChapter = None,
     obj_isPublic = None, obj_linkUrl = None, obj_startTime = None, obj_title = None,
     obj_owner = None, obj_episodeId = None\<rparr>"

text \<open>
  The collaborators the controller imports and that are not part of its file:
  \<^item> \<open>titleLike\<close>: the database's answer to
    \<^verbatim>\<open>LOWER(episode.title) LIKE '%' + text.toLowerCase().trim() + '%'\<close>, given the text and
    the title;
  \<^item> \<open>getQueryOrderColumn\<close> of \<^verbatim>\<open>~/lib/utility\<close>, and \<open>orderKey\<close>, the key the database
    sorts a row by for an \<^verbatim>\<open>ORDER BY\<close> expression;
  \<^item> \<open>request\<close> of \<^verbatim>\<open>~/lib/request\<close> and \<^verbatim>\<open>JSON.parse\<close>, either of which may throw;
  \<^item> \<open>updateMediaRef\<close> and \<open>createMediaRef\<close> of \<^verbatim>\<open>./mediaRef\<close>, which read and write the
    media-reference table and may throw (a call that throws leaves the table as it was);
  \<^item> \<open>superUserId\<close> of the configuration;
  \<^item> the storage behind the two queries that \<^verbatim>\<open>retrieveLatestChapters\<close> awaits outside
    its \<^verbatim>\<open>try\<close>: \<open>episodeQueryError\<close> is the error with which the lookup of line 270
    rejects for an episode id, \<open>chaptersQueryError\<close> the one with which the query of
    lines 345-359 rejects, \<open>None\<close> when the storage answers. A rejection of either
    reaches the caller, since no handler encloses them.

  The storage calls inside the \<^verbatim>\<open>try\<close> of lines 280-343 other than the two of
  \<^verbatim>\<open>./mediaRef\<close> (the update of line 281, the query of lines 286-292), and those of the
  reaper and of the listings, are taken as answered, except where a listing sends a
  statement the database refuses.
\<close>

record env =
  titleLike :: "string \<Rightarrow> string \<Rightarrow> bool"
  getQueryOrderColumn :: "string \<Rightarrow> string \<Rightarrow> string \<Rightarrow> string \<times> string"
  orderKey :: "string \<Rightarrow> episode \<Rightarrow> int"
  request :: "string \<Rightarrow> error + string"
  JSON_parse :: "string \<Rightarrow> error + parsedResponse"
  updateMediaRef :: "mediaRefObj \<Rightarrow> ident \<Rightarrow> mediaRef list \<Rightarrow> error + mediaRef list"
  createMediaRef :: "mediaRefObj \<Rightarrow> mediaRef list \<Rightarrow> error + mediaRef list"
  superUserId :: ident
  episodeQueryError :: "ident \<Rightarrow> error option"
  chaptersQueryError :: "ident \<Rightarrow> error option"

section \<open>The Chapter Synchronizer: retrieveLatestChapters\<close>

text \<open>\<^verbatim>\<open>x || null\<close> on an optional string: the empty string is falsy as well.\<close>

definition orNull :: "string option \<Rightarrow> string option" where
  "orNull v = (case v of None \<Rightarrow> None | Some s \<Rightarrow> if s = [] then None else Some s)"

definition truthy :: "string option \<Rightarrow> bool" where
  "truthy v = (case v of None \<Rightarrow> False | Some s \<Rightarrow> s \<noteq> [])"

text \<open>Lines 286-292: every official chapter of the table, as raw rows.\<close>

definition toRaw :: "mediaRef \<Rightarrow> rawChapter" where
  "toRaw m = \<lparr>raw_id = mr_id m, raw_isOfficialChapter = mr_isOfficialChapter m,
     raw_startTime = mr_startTime m\<rparr>"

definition existingChaptersOf :: "world \<Rightarrow> rawChapter list" where
  "existingChaptersOf w = map toRaw (filter mr_isOfficialChapter (mediaRefs w))"

text \<open>Lines 296-298.\<close>

definition deadChaptersOf :: "rawChapter list \<Rightarrow> remoteChapter list \<Rightarrow> rawChapter list" where
  "deadChaptersOf existingChapters newChapters =
     filter (\<lambda>x. list_all (\<lambda>y. rc_startTime y \<noteq> raw_startTime x) newChapters) existingChapters"

text \<open>The object literals of lines 301-304, 313-322 and 324-333.\<close>

definition deadChapterObj :: "rawChapter \<Rightarrow> mediaRefObj" where
  "deadChapterObj deadChapter = emptyObj\<lparr>obj_id := Some (raw_id deadChapter),
     obj_isOfficialChapter := Some (raw_isOfficialChapter deadChapter),
     obj_startTime := Some (raw_startTime deadChapter),
     obj_isPublic := Some False\<rparr>"

definition updateChapterObj :: "ident \<Rightarrow> rawChapter \<Rightarrow> remoteChapter \<Rightarrow> mediaRefObj" where
  "updateChapterObj i existingChapter newChapter = emptyObj\<lparr>
     obj_id := Some (raw_id existingChapter),
     obj_imageUrl := Some (orNull (rc_img newChapter)),
     obj_isOfficialChapter := Some True,
     obj_isPublic := Some True,
     obj_linkUrl := Some (orNull (rc_url newChapter)),
     obj_startTime := Some (rc_startTime newChapter),
     obj_title := Some (rc_title newChapter),
     obj_episodeId := Some i\<rparr>"

definition createChapterObj :: "env \<Rightarrow> ident \<Rightarrow> remoteChapter \<Rightarrow> mediaRefObj" where
  "createChapterObj en i newChapter = emptyObj\<lparr>
     obj_imageUrl := Some (orNull (rc_img newChapter)),
     obj_isOfficialChapter := Some True,
     obj_isPublic := Some True,
     obj_linkUrl := Some (orNull (rc_url newChapter)),
     obj_startTime := Some (rc_startTime newChapter),
     obj_title := Some (rc_title newChapter),
     obj_owner := Some (superUserId en),
     obj_episodeId := Some i\<rparr>"

text \<open>
  Lines 300-305, the loop over the dead chapters. It has no handler of its own: the
  first \<^verbatim>\<open>updateMediaRef\<close> that throws ends the loop, and the error travels to the
  handler of line 340 with the world as the loop left it.
\<close>

fun suppressDeadChapters :: "env \<Rightarrow> rawChapter list \<Rightarrow> world \<Rightarrow> error option \<times> world" where
  "suppressDeadChapters en [] w = (None, w)"
| "suppressDeadChapters en (deadChapter # rest) w =
     (case updateMediaRef en (deadChapterObj deadChapter) (superUserId en) (mediaRefs w) of
        Inl e \<Rightarrow> (Some e, w)
      | Inr t \<Rightarrow> suppressDeadChapters en rest (w\<lparr>mediaRefs := t\<rparr>))"

text \<open>
  Lines 307-338, the loop over the remote chapters. \<^verbatim>\<open>existingChapters\<close> is the list
  read before both loops. Each turn has its own handler (line 335), which logs and goes
  on with the next chapter.
\<close>

definition reconcileChapter :: "env \<Rightarrow> ident \<Rightarrow> rawChapter list \<Rightarrow> remoteChapter \<Rightarrow> world \<Rightarrow> world" where
  "reconcileChapter en i existingChapters newChapter w =
     (let attempt =
        (case find (\<lambda>x. raw_startTime x = rc_startTime newChapter) existingChapters of
           None \<Rightarrow> createMediaRef en (createChapterObj en i newChapter) (mediaRefs w)
         | Some existingChapter \<Rightarrow>
             if raw_id existingChapter \<noteq> []
             then updateMediaRef en (updateChapterObj i existingChapter newChapter)
                    (superUserId en) (mediaRefs w)
             else createMediaRef en (createChapterObj en i newChapter) (mediaRefs w))
      in case attempt of
           Inl e \<Rightarrow> w\<lparr>console := console w @ [LogError ''retrieveLatestChapters newChapter'' e]\<rparr>
         | Inr t \<Rightarrow> w\<lparr>mediaRefs := t\<rparr>)"

fun reconcileNewChapters :: "env \<Rightarrow> ident \<Rightarrow> rawChapter list \<Rightarrow> remoteChapter list \<Rightarrow> world \<Rightarrow> world" where
  "reconcileNewChapters en i existingChapters [] w = w"
| "reconcileNewChapters en i existingChapters (newChapter # rest) w =
     reconcileNewChapters en i existingChapters rest
       (reconcileChapter en i existingChapters newChapter w)"

text \<open>
  Lines 281-339, the body of the outer \<^verbatim>\<open>try\<close>: \<open>Some e\<close> when it throws \<open>e\<close>, with the
  world at that point. \<^verbatim>\<open>episodeRepository.update\<close> writes the instant of the call to
  \<^verbatim>\<open>chaptersUrlLastParsed\<close> of the episode before anything is fetched
  (\<^verbatim>\<open>episode.id\<close> of the row read at line 270 is the \<^verbatim>\<open>id\<close> asked for).
\<close>

definition markParsed :: "instant \<Rightarrow> ident \<Rightarrow> world \<Rightarrow> world" where
  "markParsed now i w = w\<lparr>episodes :=
     map (\<lambda>e. if ep_id e = i then e\<lparr>ep_chaptersUrlLastParsed := Some now\<rparr> else e) (episodes w)\<rparr>"

definition syncChapters :: "env \<Rightarrow> instant \<Rightarrow> ident \<Rightarrow> string \<Rightarrow> world \<Rightarrow> error option \<times> world" where
  "syncChapters en now i chaptersUrl w =
     (let w1 = markParsed now i w;
          w2 = w1\<lparr>requests := requests w1 @ [chaptersUrl]\<rparr>
      in case request en chaptersUrl of
           Inl e \<Rightarrow> (Some e, w2)
         | Inr response \<Rightarrow>
             (case JSON_parse en response of
                Inl e \<Rightarrow> (Some e, w2)
              | Inr parsed \<Rightarrow>
                  (case chapters parsed of
                     None \<Rightarrow> (None, w2)
                   | Some newChapters \<Rightarrow>
                       (let existingChapters = existingChaptersOf w2;
                            deadChapters = deadChaptersOf existingChapters newChapters
                        in case suppressDeadChapters en deadChapters w2 of
                             (Some e, w3) \<Rightarrow> (Some e, w3)
                           | (None, w3) \<Rightarrow>
                               (None, reconcileNewChapters en i existingChapters newChapters w3)))))"

text \<open>
  Whether reading the document at a url fails: \<^verbatim>\<open>request\<close> throws, or \<^verbatim>\<open>JSON.parse\<close>
  throws on the text it returned.
\<close>

definition fetchOrParseFails :: "env \<Rightarrow> string \<Rightarrow> bool" where
  "fetchOrParseFails en chaptersUrl =
     (case request en chaptersUrl of
        Inl e \<Rightarrow> True
      | Inr response \<Rightarrow> (case JSON_parse en response of Inl e \<Rightarrow> True | Inr parsed \<Rightarrow> False))"

text \<open>
  Line 279, the condition under which the remote document is read: the url is truthy,
  and the episode was never parsed or \<^verbatim>\<open>now + 12h\<close> is before the instant of the last
  parse.
\<close>

definition halfDayOf :: "instant \<Rightarrow> instant" where
  "halfDayOf now = now + (1 * 12 * 60 * 60 * 1000)"

definition shouldSync :: "instant \<Rightarrow> episode \<Rightarrow> bool" where
  "shouldSync now episode =
     (truthy (ep_chaptersUrl episode) \<and>
      (case ep_chaptersUrlLastParsed episode of
         None \<Rightarrow> True
       | Some chaptersUrlLastParsedDate \<Rightarrow> halfDayOf now < chaptersUrlLastParsedDate))"

text \<open>
  Lines 345-359, when the storage answers: the official chapters of the episode by
  ascending \<^verbatim>\<open>startTime\<close>, and their number. The query reads no \<^verbatim>\<open>isPublic\<close>:
  suppressed chapters are returned too. The rows are given as the stored media
  references; the query selects seven of their columns.
\<close>

definition officialChaptersForEpisode :: "ident \<Rightarrow> world \<Rightarrow> mediaRef list \<times> nat" where
  "officialChaptersForEpisode i w =
     (let rows = sort_key mr_startTime
        (filter (\<lambda>m. mr_isOfficialChapter m \<and> mr_episodeId m = i) (mediaRefs w))
      in (rows, length rows))"

text \<open>Lines 340-342, the handler of the outer \<^verbatim>\<open>try\<close>: the error is logged.\<close>

definition catchSync :: "error option \<times> world \<Rightarrow> world" where
  "catchSync outcome =
     (case outcome of
        (Some e, w1) \<Rightarrow>
          w1\<lparr>console := console w1 @ [LogError ''retrieveLatestChapters request'' e]\<rparr>
      | (None, w1) \<Rightarrow> w1)"

text \<open>
  Lines 279-343: the synchronisation when the condition of line 279 holds, with the
  handler of the outer \<^verbatim>\<open>try\<close>; the world after it.
\<close>

definition syncIfDue :: "env \<Rightarrow> instant \<Rightarrow> ident \<Rightarrow> episode \<Rightarrow> world \<Rightarrow> world" where
  "syncIfDue en now i episode w =
     (if shouldSync now episode
      then catchSync (syncChapters en now i
             (case ep_chaptersUrl episode of None \<Rightarrow> [] | Some u \<Rightarrow> u) w)
      else w)"

text \<open>
  Lines 259-362. The clock is read once per call (\<open>now\<close>). The result is the error
  thrown to the caller or the pair the function returns, with the world after the call.
  The lookup of line 270 and the query of lines 345-359 stand outside the \<^verbatim>\<open>try\<close>:
  when the storage rejects one of them the call throws that error.
\<close>

definition retrieveLatestChapters ::
  "env \<Rightarrow> instant \<Rightarrow> ident \<Rightarrow> world \<Rightarrow> (error + mediaRef list \<times> nat) \<times> world" where
  "retrieveLatestChapters en now i w =
     (case episodeQueryError en i of
        Some e \<Rightarrow> (Inl e, w)
      | None \<Rightarrow>
          (case find (\<lambda>e. ep_id e = i) (episodes w) of
             None \<Rightarrow> (Inl (Error ''Episode not found''), w)
           | Some episode \<Rightarrow>
               (let w' = syncIfDue en now i episode w
                in case chaptersQueryError en i of
                     Some e \<Rightarrow> (Inl e, w')
                   | None \<Rightarrow> (Inr (officialChaptersForEpisode i w'), w'))))"

subsection \<open>The media-reference controller, from the specification\<close>

text \<open>\<^verbatim>\<open>Object.assign(mediaRef, obj)\<close>: every key of the object overwrites the field.\<close>

definition assignObj :: "mediaRef \<Rightarrow> mediaRefObj \<Rightarrow> mediaRef" where
  "assignObj m obj = m\<lparr>
     mr_id := (case obj_id obj of None \<Rightarrow> mr_id m | Some v \<Rightarrow> v),
     mr_imageUrl := (case obj_imageUrl obj of None \<Rightarrow> mr_imageUrl m | Some v \<Rightarrow> v),
     mr_isOfficialChapter :=
       (case obj_isOfficialChapter obj of None \<Rightarrow> mr_isOfficialChapter m | Some v \<Rightarrow> v),
     mr_isPublic := (case obj_isPublic obj of None \<Rightarrow> mr_isPublic m | Some v \<Rightarrow> v),
     mr_linkUrl := (case obj_linkUrl obj of None \<Rightarrow> mr_linkUrl m | Some v \<Rightarrow> v),
     mr_startTime := (case obj_startTime obj of None \<Rightarrow> mr_startTime m | Some v \<Rightarrow> v),
     mr_title := (case obj_title obj of None \<Rightarrow> mr_title m | Some v \<Rightarrow> v),
     mr_owner := (case obj_owner obj of None \<Rightarrow> mr_owner m | Some v \<Rightarrow> v),
     mr_episodeId := (case obj_episodeId obj of None \<Rightarrow> mr_episodeId m | Some v \<Rightarrow> v)\<rparr>"

text \<open>
  Modelled from the spec: \<^verbatim>\<open>updateMediaRef\<close> of \<^verbatim>\<open>./mediaRef\<close> is not among the sources.
  The specification gives the storage primitives \<^verbatim>\<open>findOne(...) -> entity | null\<close> and
  \<^verbatim>\<open>save(entity)\<close>, and says of the synchronizer that it "updates the fields" of the
  stored chapter and "marks it non-public": the reference with the object's id is
  looked up, the object's keys are written over it, and it is saved in place. A
  reference that is not found is a \<open>NotFound\<close> error.
\<close>

definition spec_updateMediaRef :: "mediaRefObj \<Rightarrow> ident \<Rightarrow> mediaRef list \<Rightarrow> error + mediaRef list" where
  "spec_updateMediaRef obj loggedInUserId t =
     (case obj_id obj of
        None \<Rightarrow> Inl (NotFound ''MediaRef not found'')
      | Some i \<Rightarrow>
          if list_ex (\<lambda>m. mr_id m = i) t
          then Inr (map (\<lambda>m. if mr_id m = i then assignObj m obj else m) t)
          else Inl (NotFound ''MediaRef not found''))"

text \<open>
  Modelled from the spec: \<^verbatim>\<open>createMediaRef\<close> of \<^verbatim>\<open>./mediaRef\<close> is not among the sources.
  The specification says that the synchronizer "creates a new official, public media
  reference owned by a system/super-user identity": a new row with an identifier no
  stored reference has (here: a string longer than every stored identifier), filled
  from the object, is appended to the table. The identifier is always the generated
  one, whatever the object says.
\<close>

definition freshId :: "ident list \<Rightarrow> ident" where
  "freshId ids = replicate (Suc (foldr (\<lambda>i n. max (length i) n) ids 0)) (CHR ''0'')"

definition newMediaRef :: "ident \<Rightarrow> mediaRef" where
  "newMediaRef i = \<lparr>mr_id = i, mr_episodeId = [], mr_startTime = 0, mr_endTime = None,
     mr_title = None, mr_imageUrl = None, mr_linkUrl = None, mr_isOfficialChapter = False,
     mr_isPublic = False, mr_owner = []\<rparr>"

definition spec_createMediaRef :: "mediaRefObj \<Rightarrow> mediaRef list \<Rightarrow> error + mediaRef list" where
  "spec_createMediaRef obj t =
     Inr (t @ [assignObj (newMediaRef (freshId (map mr_id t))) (obj\<lparr>obj_id := None\<rparr>)])"

text \<open>
  A storage that fails on the references of \<open>bad\<close>: \<^verbatim>\<open>updateMediaRef\<close> throws for them
  and works as above for every other reference.
\<close>

definition failing_updateMediaRef ::
  "ident list \<Rightarrow> mediaRefObj \<Rightarrow> ident \<Rightarrow> mediaRef list \<Rightarrow> error + mediaRef list" where
  "failing_updateMediaRef bad obj loggedInUserId t =
     (case obj_id obj of
        None \<Rightarrow> spec_updateMediaRef obj loggedInUserId t
      | Some i \<Rightarrow>
          if i \<in> set bad then Inl (QueryFailedError ''connection terminated'')
          else spec_updateMediaRef obj loggedInUserId t)"

section \<open>The Dead-Episode Reaper\<close>

text \<open>
  Lines 225-242: the non-public episodes that the left join pairs with no media
  reference, at most 100 of them, as raw rows holding the id. The rows come in storage
  order.
\<close>

definition isDead :: "world \<Rightarrow> episode \<Rightarrow> bool" where
  "isDead w e = (\<not> ep_isPublic e \<and> \<not> list_ex (\<lambda>m. mr_episodeId m = ep_id e) (mediaRefs w))"

definition getDeadEpisodes :: "world \<Rightarrow> ident list \<times> world" where
  "getDeadEpisodes w =
     (let rows = map ep_id (take 100 (filter (isDead w) (episodes w)))
      in (rows, w\<lparr>console := console w @ [LogCount ''dead episode count:'' (length rows)]\<rparr>))"

text \<open>Lines 252-257: \<^verbatim>\<open>repository.remove\<close> deletes the episode with the row's id.\<close>

fun removeEpisodes :: "ident list \<Rightarrow> world \<Rightarrow> world" where
  "removeEpisodes [] w = w"
| "removeEpisodes (episode # rest) w =
     removeEpisodes rest (w\<lparr>episodes := filter (\<lambda>e. ep_id e \<noteq> episode) (episodes w)\<rparr>)"

text \<open>
  Lines 244-250. The pause of one second after the removals changes nothing in the
  world and is left out.
\<close>

definition removeDeadEpisodes :: "world \<Rightarrow> bool \<times> world" where
  "removeDeadEpisodes w =
     (case getDeadEpisodes w of
        (deadEpisodes, w1) \<Rightarrow>
          (let w2 = removeEpisodes deadEpisodes w1;
               shouldContinue = (length deadEpisodes = 100)
           in (shouldContinue, w2)))"

section \<open>The episode listings\<close>

subsection \<open>The query builder\<close>

text \<open>
  A TypeORM query builder on the episode table is a value: its joins, its \<^verbatim>\<open>WHERE\<close>
  clauses (joined by \<^verbatim>\<open>AND\<close>), offset, limit and order. Each clause the controller
  writes as an SQL fragment is a constructor.
\<close>

datatype whereClause =
    TitleLike string
  | WhereTrue
  | PastHourGt0
  | PastDayGt0
  | PastWeekGt0
  | PastMonthGt0
  | PastYearGt0
  | PastAllTimeGt0
  | PubDateAfter instant
  | IsPublicTrue
  | PodcastIdIn "ident list"
  | EpisodeIdIn "ident list"

datatype joinClause =
    InnerJoinPodcast bool
  | InnerJoinCategoriesIn "ident list"

record queryBuilder =
  qb_joins :: "joinClause list"
  qb_wheres :: "whereClause list"
  qb_offset :: "nat option"
  qb_limit :: "nat option"
  qb_orderBy :: "(string \<times> string option) option"

definition andWhere :: "whereClause \<Rightarrow> queryBuilder \<Rightarrow> queryBuilder" where
  "andWhere c qb = qb\<lparr>qb_wheres := qb_wheres qb @ [c]\<rparr>"

text \<open>
  What the database answers to a statement it accepts: a row is kept when every join
  finds a partner and every clause holds.
\<close>

fun whereHolds :: "env \<Rightarrow> episode \<Rightarrow> whereClause \<Rightarrow> bool" where
  "whereHolds en e (TitleLike searchAllFieldsText) = titleLike en searchAllFieldsText (ep_title e)"
| "whereHolds en e WhereTrue = True"
| "whereHolds en e PastHourGt0 = (ep_pastHourTotalUniquePageviews e > 0)"
| "whereHolds en e PastDayGt0 = (ep_pastDayTotalUniquePageviews e > 0)"
| "whereHolds en e PastWeekGt0 = (ep_pastWeekTotalUniquePageviews e > 0)"
| "whereHolds en e PastMonthGt0 = (ep_pastMonthTotalUniquePageviews e > 0)"
| "whereHolds en e PastYearGt0 = (ep_pastYearTotalUniquePageviews e > 0)"
| "whereHolds en e PastAllTimeGt0 = (ep_pastAllTimeTotalUniquePageviews e > 0)"
| "whereHolds en e (PubDateAfter d) = (case ep_pubDate e of None \<Rightarrow> False | Some p \<Rightarrow> p > d)"
| "whereHolds en e IsPublicTrue = ep_isPublic e"
| "whereHolds en e (PodcastIdIn podcastIds) = (ep_podcastId e \<in> set podcastIds)"
| "whereHolds en e (EpisodeIdIn ids) = (ep_id e \<in> set ids)"

fun joinHolds :: "world \<Rightarrow> episode \<Rightarrow> joinClause \<Rightarrow> bool" where
  "joinHolds w e (InnerJoinPodcast andSelect) =
     list_ex (\<lambda>p. pc_id p = ep_podcastId e) (podcasts w)"
| "joinHolds w e (InnerJoinCategoriesIn categoriesIds) =
     list_ex (\<lambda>p. pc_id p = ep_podcastId e \<and> list_ex (\<lambda>c. c \<in> set categoriesIds) (pc_categories p))
       (podcasts w)"

definition rowMatches :: "env \<Rightarrow> world \<Rightarrow> queryBuilder \<Rightarrow> episode \<Rightarrow> bool" where
  "rowMatches en w qb e =
     (list_all (joinHolds w e) (qb_joins qb) \<and> list_all (whereHolds en e) (qb_wheres qb))"

definition ordered :: "env \<Rightarrow> (string \<times> string option) option \<Rightarrow> episode list \<Rightarrow> episode list" where
  "ordered en ob rows =
     (case ob of
        None \<Rightarrow> rows
      | Some (col, dir) \<Rightarrow>
          if dir = Some ''DESC'' then rev (sort_key (orderKey en col) rows)
          else sort_key (orderKey en col) rows)"

text \<open>
  \<^verbatim>\<open>offset\<close> and \<^verbatim>\<open>limit\<close>. TypeORM writes a \<^verbatim>\<open>LIMIT\<close> only for a truthy number: with
  \<^verbatim>\<open>limit(0)\<close> the statement has none.
\<close>

definition paged :: "nat option \<Rightarrow> nat option \<Rightarrow> 'a list \<Rightarrow> 'a list" where
  "paged off lim rows =
     (let skipped = (case off of None \<Rightarrow> rows | Some n \<Rightarrow> drop n rows)
      in case lim of None \<Rightarrow> skipped | Some n \<Rightarrow> if n = 0 then skipped else take n skipped)"

text \<open>
  \<^verbatim>\<open>IN (:...ids)\<close> with an empty array: TypeORM expands the parameter to nothing, the
  statement reads \<^verbatim>\<open>IN ()\<close>, the database refuses it and the call rejects with a
  \<^verbatim>\<open>QueryFailedError\<close>.
\<close>

definition emptyInError :: error where
  "emptyInError = QueryFailedError ''syntax error at or near )''"

fun emptyInWhere :: "whereClause \<Rightarrow> bool" where
  "emptyInWhere (PodcastIdIn podcastIds) = (podcastIds = [])"
| "emptyInWhere (EpisodeIdIn ids) = (ids = [])"
| "emptyInWhere c = False"

fun emptyInJoin :: "joinClause \<Rightarrow> bool" where
  "emptyInJoin (InnerJoinCategoriesIn categoriesIds) = (categoriesIds = [])"
| "emptyInJoin j = False"

definition sendsEmptyIn :: "queryBuilder \<Rightarrow> bool" where
  "sendsEmptyIn qb = (list_ex emptyInWhere (qb_wheres qb) \<or> list_ex emptyInJoin (qb_joins qb))"

text \<open>The rows an accepted statement selects, and \<^verbatim>\<open>getMany\<close> and \<^verbatim>\<open>getManyAndCount\<close>.\<close>

definition selectedRows :: "env \<Rightarrow> queryBuilder \<Rightarrow> world \<Rightarrow> episode list" where
  "selectedRows en qb w =
     paged (qb_offset qb) (qb_limit qb)
       (ordered en (qb_orderBy qb) (filter (rowMatches en w qb) (episodes w)))"

definition getMany :: "env \<Rightarrow> queryBuilder \<Rightarrow> world \<Rightarrow> error + episode list" where
  "getMany en qb w = (if sendsEmptyIn qb then Inl emptyInError else Inr (selectedRows en qb w))"

definition getManyAndCount :: "env \<Rightarrow> queryBuilder \<Rightarrow> world \<Rightarrow> error + episode list \<times> nat" where
  "getManyAndCount en qb w =
     (if sendsEmptyIn qb then Inl emptyInError
      else Inr (selectedRows en qb w, length (filter (rowMatches en w qb) (episodes w))))"

subsection \<open>The controller's functions\<close>

text \<open>
  Lines 41-64. For \<^verbatim>\<open>most-recent\<close> the bound is the instant one day before the call,
  cut to whole seconds as the date string is.
\<close>

definition limitEpisodesQuerySize :: "instant \<Rightarrow> queryBuilder \<Rightarrow> bool \<Rightarrow> string \<Rightarrow> queryBuilder" where
  "limitEpisodesQuerySize now qb shouldLimit sort' =
     (if shouldLimit then
        (if sort' = ''top-past-hour'' then andWhere PastHourGt0 qb
         else if sort' = ''top-past-day'' then andWhere PastDayGt0 qb
         else if sort' = ''top-past-week'' then andWhere PastWeekGt0 qb
         else if sort' = ''top-past-month'' then andWhere PastMonthGt0 qb
         else if sort' = ''top-past-year'' then andWhere PastYearGt0 qb
         else if sort' = ''top-all-time'' then andWhere PastAllTimeGt0 qb
         else if sort' = ''most-recent''
           then andWhere (PubDateAfter (((now - 24 * 60 * 60 * 1000) div 1000) * 1000)) qb
         else qb)
      else qb)"

text \<open>Lines 66-104. The selected columns are fixed and are not part of the value.\<close>

definition generateEpisodeSelects :: "bool \<Rightarrow> string \<Rightarrow> queryBuilder" where
  "generateEpisodeSelects includePodcast searchAllFieldsText =
     \<lparr>qb_joins = [InnerJoinPodcast includePodcast],
      qb_wheres = [if searchAllFieldsText \<noteq> [] then TitleLike searchAllFieldsText else WhereTrue],
      qb_offset = None, qb_limit = None, qb_orderBy = None\<rparr>"

text \<open>Lines 107-112.\<close>

definition cleanEpisodes :: "episode list \<Rightarrow> episode list" where
  "cleanEpisodes rows =
     map (\<lambda>x. x\<lparr>ep_description :=
            Some (case ep_description x of
                    None \<Rightarrow> []
                  | Some d \<Rightarrow> if d \<noteq> [] then take 2500 d else [])\<rparr>) rows"

text \<open>
  The request's query object. \<^verbatim>\<open>categories\<close> and \<^verbatim>\<open>podcastId\<close> are comma-separated
  lists of ids, when given.
\<close>

record query =
  q_includePodcast :: bool
  q_searchAllFieldsText :: string
  q_skip :: nat
  q_take :: nat
  q_sort :: string
  q_categories :: "string option"
  q_podcastId :: "string option"

text \<open>\<^verbatim>\<open>s.split(',')\<close>, and \<^verbatim>\<open>s && s.split(',') || []\<close>.\<close>

fun split_comma :: "string \<Rightarrow> string list" where
  "split_comma [] = [[]]"
| "split_comma (c # cs) =
     (if c = CHR '','' then [] # split_comma cs
      else (case split_comma cs of
              [] \<Rightarrow> [[c]]
            | x # xs \<Rightarrow> (c # x) # xs))"

definition idsOf :: "string option \<Rightarrow> ident list" where
  "idsOf v = (case v of None \<Rightarrow> [] | Some s \<Rightarrow> if s = [] then [] else split_comma s)"

text \<open>
  A listing throws, or returns its page and total count; with that, the queries it
  sent to the episode table, in order. \<open>pageOf\<close> is the page a caller receives (none
  when the listing throws).
\<close>

type_synonym listing = "(error + episode list \<times> nat) \<times> queryBuilder list"

definition pageOf :: "listing \<Rightarrow> episode list" where
  "pageOf l = (case fst l of Inl e \<Rightarrow> [] | Inr (rows, n) \<Rightarrow> rows)"

text \<open>
  Lines 115-128: the rows of the recency table (by category or by podcast) whose
  grouping key is among the ids; then those rows by descending publication date, one
  page of them, with the number of all of them. This is the answer to an accepted
  statement; with no id the statement is \<^verbatim>\<open>IN ()\<close> and the query rejects.
\<close>

definition matchingRecentEpisodes :: "string \<Rightarrow> ident list \<Rightarrow> world \<Rightarrow> recentEpisode list" where
  "matchingRecentEpisodes type ids w =
     filter (\<lambda>r. re_groupId r \<in> set ids)
       (if type = ''categoriesIds'' then recentEpisodeByCategory w else recentEpisodeByPodcast w)"

definition recentEpisodesResultOf ::
  "string \<Rightarrow> ident list \<Rightarrow> nat \<Rightarrow> nat \<Rightarrow> world \<Rightarrow> recentEpisode list \<times> nat" where
  "recentEpisodesResultOf type ids skip take' w =
     (let matching = matchingRecentEpisodes type ids w
      in (paged (Some skip) (Some take') (rev (sort_key re_pubDate matching)), length matching))"

definition recentEpisodesQuery ::
  "string \<Rightarrow> ident list \<Rightarrow> nat \<Rightarrow> nat \<Rightarrow> world \<Rightarrow> error + recentEpisode list \<times> nat" where
  "recentEpisodesQuery type ids skip take' w =
     (if ids = [] then Inl emptyInError else Inr (recentEpisodesResultOf type ids skip take' w))"

text \<open>Lines 114-141.\<close>

definition handleMostRecentEpisodesQuery ::
  "env \<Rightarrow> queryBuilder \<Rightarrow> string \<Rightarrow> ident list \<Rightarrow> nat \<Rightarrow> nat \<Rightarrow> world \<Rightarrow> listing" where
  "handleMostRecentEpisodesQuery en qb type ids skip take' w =
     (case recentEpisodesQuery type ids skip take' w of
        Inl e \<Rightarrow> (Inl e, [])
      | Inr recentEpisodesResult \<Rightarrow>
          (let totalCount = snd recentEpisodesResult
           in if totalCount = 0 then (Inr ([], 0), [])
              else
                (let recentEpisodeIds = map re_episodeId (fst recentEpisodesResult)
                 in if length recentEpisodeIds \<le> 0 then (Inr ([], totalCount), [])
                    else
                      (let qb' = andWhere (EpisodeIdIn recentEpisodeIds) qb
                       in case getMany en qb' w of
                            Inl e \<Rightarrow> (Inl e, [qb'])
                          | Inr found \<Rightarrow>
                              (let cleanedEpisodes = cleanEpisodes found
                               in (Inr (cleanedEpisodes, totalCount), [qb']))))))"

text \<open>Lines 143-158.\<close>

definition handleGetEpisodesWithOrdering ::
  "env \<Rightarrow> queryBuilder \<Rightarrow> query \<Rightarrow> nat \<Rightarrow> string \<Rightarrow> nat \<Rightarrow> world \<Rightarrow> listing" where
  "handleGetEpisodesWithOrdering en qb query skip sort' take' w =
     (let qb1 = qb\<lparr>qb_offset := Some skip, qb_limit := Some take'\<rparr>;
          orderColumn = getQueryOrderColumn en ''episode'' sort' ''pubDate'';
          qb2 = (if q_sort query = ''random''
                 then qb1\<lparr>qb_orderBy := Some (fst orderColumn, None)\<rparr>
                 else qb1\<lparr>qb_orderBy := Some (fst orderColumn, Some (snd orderColumn))\<rparr>)
      in case getManyAndCount en qb2 w of
           Inl e \<Rightarrow> (Inl e, [qb2])
         | Inr episodesResults \<Rightarrow>
             (let cleanedEpisodes = cleanEpisodes (fst episodesResults)
              in (Inr (cleanedEpisodes, snd episodesResults), [qb2])))"

text \<open>Lines 160-169.\<close>

definition getEpisodes :: "env \<Rightarrow> instant \<Rightarrow> query \<Rightarrow> world \<Rightarrow> listing" where
  "getEpisodes en now query w =
     (let qb = generateEpisodeSelects (q_includePodcast query) (q_searchAllFieldsText query);
          shouldLimit = True;
          qb = limitEpisodesQuerySize now qb shouldLimit (q_sort query);
          qb = andWhere IsPublicTrue qb
      in handleGetEpisodesWithOrdering en qb query (q_skip query) (q_sort query) (q_take query) w)"

text \<open>Lines 171-193.\<close>

definition getEpisodesByCategoryIds :: "env \<Rightarrow> instant \<Rightarrow> query \<Rightarrow> world \<Rightarrow> listing" where
  "getEpisodesByCategoryIds en now query w =
     (let categoriesIds = idsOf (q_categories query);
          qb = generateEpisodeSelects (q_includePodcast query) (q_searchAllFieldsText query)
      in if q_sort query = ''most-recent''
         then handleMostRecentEpisodesQuery en qb ''categoriesIds'' categoriesIds
                (q_skip query) (q_take query) w
         else
           (let qb = qb\<lparr>qb_joins := qb_joins qb @ [InnerJoinCategoriesIn categoriesIds]\<rparr>;
                shouldLimit = True;
                qb = limitEpisodesQuerySize now qb shouldLimit (q_sort query);
                qb = andWhere IsPublicTrue qb
            in handleGetEpisodesWithOrdering en qb query
                 (q_skip query) (q_sort query) (q_take query) w))"

text \<open>Lines 195-201.\<close>

definition getEpisodesByPodcastId :: "env \<Rightarrow> query \<Rightarrow> queryBuilder \<Rightarrow> ident list \<Rightarrow> world \<Rightarrow> listing" where
  "getEpisodesByPodcastId en query qb podcastIds w =
     (let qb = andWhere (PodcastIdIn podcastIds) qb;
          qb = andWhere IsPublicTrue qb
      in handleGetEpisodesWithOrdering en qb query (q_skip query) (q_sort query) (q_take query) w)"

text \<open>Lines 203-223.\<close>

definition getEpisodesByPodcastIds :: "env \<Rightarrow> instant \<Rightarrow> query \<Rightarrow> world \<Rightarrow> listing" where
  "getEpisodesByPodcastIds en now query w =
     (let podcastIds = idsOf (q_podcastId query);
          qb = generateEpisodeSelects (q_includePodcast query) (q_searchAllFieldsText query)
      in if length podcastIds = 1 then getEpisodesByPodcastId en query qb podcastIds w
         else if q_sort query = ''most-recent''
         then handleMostRecentEpisodesQuery en qb ''podcastIds'' podcastIds
                (q_skip query) (q_take query) w
         else
           (let qb = andWhere (PodcastIdIn podcastIds) qb;
                shouldLimit = (length podcastIds > 10);
                qb = limitEpisodesQuerySize now qb shouldLimit (q_sort query);
                qb = andWhere IsPublicTrue qb
            in handleGetEpisodesWithOrdering en qb query
                 (q_skip query) (q_sort query) (q_take query) w))"

text \<open>
  The clauses of \<^verbatim>\<open>limitEpisodesQuerySize\<close>, and whether one of the queries a listing ran
  carries one of them, or the public-visibility clause.
\<close>

fun isLimitingClause :: "whereClause \<Rightarrow> bool" where
  "isLimitingClause PastHourGt0 = True"
| "isLimitingClause PastDayGt0 = True"
| "isLimitingClause PastWeekGt0 = True"
| "isLimitingClause PastMonthGt0 = True"
| "isLimitingClause PastYearGt0 = True"
| "isLimitingClause PastAllTimeGt0 = True"
| "isLimitingClause (PubDateAfter d) = True"
| "isLimitingClause c = False"

definition popularitySorts :: "string list" where
  "popularitySorts = [''top-past-hour'', ''top-past-day'', ''top-past-week'',
     ''top-past-month'', ''top-past-year'', ''top-all-time'']"

definition appliesLimiting :: "queryBuilder list \<Rightarrow> bool" where
  "appliesLimiting qbs = list_ex (\<lambda>qb. list_ex isLimitingClause (qb_wheres qb)) qbs"

definition restrictsToPublic :: "queryBuilder list \<Rightarrow> bool" where
  "restrictsToPublic qbs = list_ex (\<lambda>qb. IsPublicTrue \<in> set (qb_wheres qb)) qbs"

section \<open>Example worlds\<close>

text \<open>
  Concrete collaborators and rows, used where a property is evaluated on an input: a
  document with the one chapter \<^verbatim>\<open>{startTime: 10, title: "A"}\<close>, an environment that
  serves it and stores media references as the specification says, and makers of
  episodes, official chapters and worlds.
\<close>

definition exDoc :: parsedResponse where
  "exDoc = \<lparr>chapters =
     Some [\<lparr>rc_startTime = 10, rc_title = Some ''A'', rc_img = None, rc_url = None\<rparr>]\<rparr>"

definition exEnv :: env where
  "exEnv = \<lparr>titleLike = (\<lambda>t title. True),
     getQueryOrderColumn = (\<lambda>e s d. (''episode.pubDate'', ''DESC'')),
     orderKey = (\<lambda>c e. case ep_pubDate e of None \<Rightarrow> 0 | Some p \<Rightarrow> p),
     request = (\<lambda>u. Inr ''{chapters}''),
     JSON_parse = (\<lambda>s. Inr exDoc),
     updateMediaRef = spec_updateMediaRef,
     createMediaRef = spec_createMediaRef,
     superUserId = ''su'',
     episodeQueryError = (\<lambda>i. None),
     chaptersQueryError = (\<lambda>i. None)\<rparr>"

definition exEpisode :: "ident \<Rightarrow> bool \<Rightarrow> string option \<Rightarrow> instant option \<Rightarrow> episode" where
  "exEpisode i pub url parsed = \<lparr>ep_id = i, ep_description = None, ep_isPublic = pub,
     ep_podcastId = ''p1'', ep_title = ''t'', ep_pubDate = None,
     ep_pastHourTotalUniquePageviews = 0, ep_pastDayTotalUniquePageviews = 0,
     ep_pastWeekTotalUniquePageviews = 0, ep_pastMonthTotalUniquePageviews = 0,
     ep_pastYearTotalUniquePageviews = 0, ep_pastAllTimeTotalUniquePageviews = 0,
     ep_chaptersUrl = url, ep_chaptersUrlLastParsed = parsed\<rparr>"

definition exChapter :: "ident \<Rightarrow> ident \<Rightarrow> int \<Rightarrow> string \<Rightarrow> mediaRef" where
  "exChapter i e s t = \<lparr>mr_id = i, mr_episodeId = e, mr_startTime = s, mr_endTime = None,
     mr_title = Some t, mr_imageUrl = None, mr_linkUrl = None, mr_isOfficialChapter = True,
     mr_isPublic = True, mr_owner = ''su''\<rparr>"

definition exWorld :: "episode list \<Rightarrow> mediaRef list \<Rightarrow> world" where
  "exWorld es ms = \<lparr>episodes = es, mediaRefs = ms, podcasts = [\<lparr>pc_id = ''p1'', pc_categories = [''c1'']\<rparr>],
     recentEpisodeByCategory = [], recentEpisodeByPodcast = [], console = [], requests = []\<rparr>"

definition exQuery :: "string \<Rightarrow> string option \<Rightarrow> string option \<Rightarrow> query" where
  "exQuery sort' cats pods = \<lparr>q_includePodcast = False, q_searchAllFieldsText = [],
     q_skip = 0, q_take = 20, q_sort = sort', q_categories = cats, q_podcastId = pods\<rparr>"

text \<open>
  A world for the listings: the podcast \<open>p1\<close> of category \<open>c1\<close> with a public and a
  non-public episode, both in the two recency tables.
\<close>

definition exListingWorld :: world where
  "exListingWorld = (exWorld [exEpisode ''e1'' True None None, exEpisode ''e2'' False None None] [])
     \<lparr>recentEpisodeByCategory :=
        [\<lparr>re_episodeId = ''e1'', re_groupId = ''c1'', re_pubDate = 100\<rparr>,
         \<lparr>re_episodeId = ''e2'', re_groupId = ''c1'', re_pubDate = 200\<rparr>],
      recentEpisodeByPodcast :=
        [\<lparr>re_episodeId = ''e1'', re_groupId = ''p1'', re_pubDate = 100\<rparr>,
         \<lparr>re_episodeId = ''e2'', re_groupId = ''p1'', re_pubDate = 200\<rparr>]\<rparr>"

text \<open>
  A storage that fails on the media reference \<open>m2\<close>, and a document with the two
  chapters \<^verbatim>\<open>{startTime: 20, title: "B2"}\<close> and \<^verbatim>\<open>{startTime: 30, title: "C2"}\<close>.
\<close>

definition exStorageFailEnv :: env where
  "exStorageFailEnv = exEnv\<lparr>updateMediaRef := failing_updateMediaRef [''m2'']\<rparr>"

definition exDoc2 :: parsedResponse where
  "exDoc2 = \<lparr>chapters =
     Some [\<lparr>rc_startTime = 20, rc_title = Some ''B2'', rc_img = None, rc_url = None\<rparr>,
           \<lparr>rc_startTime = 30, rc_title = Some ''C2'', rc_img = None, rc_url = None\<rparr>]\<rparr>"

definition exFailEnv :: env where
  "exFailEnv = exEnv\<lparr>request := (\<lambda>u. Inl (RequestError ''ETIMEDOUT''))\<rparr>"

text \<open>A storage that rejects the query of lines 345-359.\<close>

definition exDownEnv :: env where
  "exDownEnv = exEnv\<lparr>chaptersQueryError :=
     (\<lambda>i. Some (QueryFailedError ''Connection terminated unexpectedly''))\<rparr>"

text \<open>
  A world for the reaper: 37 non-public episodes without media references, a public
  episode, and a non-public episode that a clip still points to.
\<close>

definition exReaperWorld :: world where
  "exReaperWorld = exWorld
     (map (\<lambda>n. exEpisode (replicate n (CHR ''d'')) False None None) [1..<38] @
      [exEpisode ''pub'' True None None, exEpisode ''clip'' False None None])
     [exChapter ''m1'' ''clip'' 0 ''c'']"

section \<open>Properties of the Chapter Synchronizer\<close>

lemmas ex_defs = exDoc_def exEnv_def exEpisode_def exChapter_def exWorld_def exQuery_def

lemmas sync_defs = retrieveLatestChapters_def shouldSync_def truthy_def halfDayOf_def
  officialChaptersForEpisode_def syncChapters_def markParsed_def existingChaptersOf_def
  deadChaptersOf_def toRaw_def reconcileChapter_def deadChapterObj_def updateChapterObj_def
  createChapterObj_def emptyObj_def orNull_def spec_updateMediaRef_def spec_createMediaRef_def
  assignObj_def freshId_def newMediaRef_def catchSync_def syncIfDue_def

subsection \<open>What a run leaves untouched\<close>

lemma suppressDeadChapters_frame:
  "suppressDeadChapters en ds w = (r, w') \<Longrightarrow>
     episodes w' = episodes w \<and> requests w' = requests w \<and> console w' = console w"
  by (induction ds arbitrary: w) (auto split: sum.splits)

lemma reconcileChapter_frame:
  "episodes (reconcileChapter en i ex c w) = episodes w \<and>
   requests (reconcileChapter en i ex c w) = requests w"
  by (simp add: reconcileChapter_def Let_def split: sum.splits option.splits)

lemma reconcileNewChapters_frame:
  "episodes (reconcileNewChapters en i ex cs w) = episodes w \<and>
   requests (reconcileNewChapters en i ex cs w) = requests w"
  by (induction cs arbitrary: w) (simp_all add: reconcileChapter_frame)

lemma syncChapters_frame:
  "syncChapters en now i u w = (r, w') \<Longrightarrow>
     episodes w' = episodes (markParsed now i w) \<and> requests w' = requests w @ [u]"
  by (auto simp: syncChapters_def Let_def markParsed_def reconcileNewChapters_frame
      split: sum.splits option.splits prod.splits dest!: suppressDeadChapters_frame)

lemma catchSync_frame:
  "episodes (catchSync (r, w)) = episodes w \<and> requests (catchSync (r, w)) = requests w \<and>
   mediaRefs (catchSync (r, w)) = mediaRefs w"
  by (simp add: catchSync_def split: option.splits)

lemma find_map_same_key:
  "(\<And>e. ep_id (g e) = ep_id e) \<Longrightarrow>
   find (\<lambda>e. ep_id e = i) (map (\<lambda>e. if ep_id e = i then g e else e) xs) =
   map_option g (find (\<lambda>e. ep_id e = i) xs)"
  by (induction xs) auto

lemma find_markParsed:
  "find (\<lambda>e. ep_id e = i) (episodes (markParsed now i w)) =
   map_option (\<lambda>e. e\<lparr>ep_chaptersUrlLastParsed := Some now\<rparr>) (find (\<lambda>e. ep_id e = i) (episodes w))"
  unfolding markParsed_def by (simp add: find_map_same_key)

lemma find_None_list_ex: "(find P xs = None) = (\<not> list_ex P xs)"
  by (induction xs) auto

lemma retrieve_found:
  "episodeQueryError en i = None \<Longrightarrow> find (\<lambda>e. ep_id e = i) (episodes w) = Some episode \<Longrightarrow>
   retrieveLatestChapters en now i w =
     ((case chaptersQueryError en i of
         Some e \<Rightarrow> Inl e
       | None \<Rightarrow> Inr (officialChaptersForEpisode i (syncIfDue en now i episode w))),
      syncIfDue en now i episode w)"
  by (simp add: retrieveLatestChapters_def Let_def split: option.splits)

lemma syncIfDue_skip: "\<not> shouldSync now episode \<Longrightarrow> syncIfDue en now i episode w = w"
  by (simp add: syncIfDue_def)

lemma sync_then_find:
  "find (\<lambda>e. ep_id e = i) (episodes w) = Some episode \<Longrightarrow>
   find (\<lambda>e. ep_id e = i) (episodes (catchSync (syncChapters en now i u w))) =
     Some (episode\<lparr>ep_chaptersUrlLastParsed := Some now\<rparr>)"
  by (cases "syncChapters en now i u w")
     (auto simp: catchSync_frame find_markParsed dest!: syncChapters_frame)

lemma syncIfDue_find:
  assumes "find (\<lambda>e. ep_id e = i) (episodes w) = Some episode" and "now1 \<le> now2"
  shows "\<exists>episode'. find (\<lambda>e. ep_id e = i) (episodes (syncIfDue en now1 i episode w)) = Some episode' \<and>
           \<not> shouldSync now2 episode'"
proof (cases "shouldSync now1 episode")
  case False
  then have "\<not> shouldSync now2 episode"
    using assms(2) by (auto simp: shouldSync_def halfDayOf_def split: option.splits)
  with False assms(1) show ?thesis by (simp add: syncIfDue_def)
next
  case True
  have "\<not> shouldSync now2 (episode\<lparr>ep_chaptersUrlLastParsed := Some now1\<rparr>)"
    using assms(2) by (simp add: shouldSync_def halfDayOf_def)
  with True assms(1) show ?thesis by (simp add: syncIfDue_def sync_then_find)
qed

lemma syncChapters_fails:
  "fetchOrParseFails en u \<Longrightarrow> mediaRefs (catchSync (syncChapters en now i u w)) = mediaRefs w"
  by (auto simp: fetchOrParseFails_def syncChapters_def markParsed_def catchSync_def Let_def
      split: sum.splits)

lemma syncIfDue_fails:
  "ep_chaptersUrl episode = Some u \<Longrightarrow> fetchOrParseFails en u \<Longrightarrow>
   mediaRefs (syncIfDue en now i episode w) = mediaRefs w"
  by (simp add: syncIfDue_def syncChapters_fails)

subsection \<open>Two runs in succession\<close>

text \<open>
  Claim C5. Running \<open>retrieveLatestChapters\<close> twice in succession on the same episode
  (the second call not before the first, whatever the remote document, the storage and
  the world are) gives what one run gives: the second run returns the result of the
  first and leaves the world of the first as it is, so it creates no media reference.
  The first run either reads the document, and then has written its own instant to
  \<^verbatim>\<open>chaptersUrlLastParsed\<close>, or it did not read it; in both cases the condition of line
  279 is false in the second run.
\<close>

theorem retrieveLatestChapters_twice:
  assumes "now1 \<le> now2"
  shows "(case retrieveLatestChapters en now1 i w of
           (r1, w1) \<Rightarrow> retrieveLatestChapters en now2 i w1 = (r1, w1))"
proof (cases "episodeQueryError en i")
  case (Some err)
  then show ?thesis by (simp add: retrieveLatestChapters_def)
next
  case None
  note answered = None
  show ?thesis
  proof (cases "find (\<lambda>e. ep_id e = i) (episodes w)")
    case None
    with answered show ?thesis by (simp add: retrieveLatestChapters_def)
  next
    case (Some episode)
    define w' where "w' = syncIfDue en now1 i episode w"
    define r where "r = (case chaptersQueryError en i of
         Some e \<Rightarrow> Inl e
       | None \<Rightarrow> Inr (officialChaptersForEpisode i w'))"
    have run1: "retrieveLatestChapters en now1 i w = (r, w')"
      unfolding r_def w'_def using answered Some by (rule retrieve_found)
    obtain episode' where f: "find (\<lambda>e. ep_id e = i) (episodes w') = Some episode'"
      and skip: "\<not> shouldSync now2 episode'"
      using syncIfDue_find [OF Some assms] unfolding w'_def by blast
    have "retrieveLatestChapters en now2 i w' = (r, w')"
      using retrieve_found [OF answered f, where now = now2]
      unfolding syncIfDue_skip [OF skip] r_def .
    with run1 show ?thesis by simp
  qed
qed

text \<open>
  The property at an input: an episode never parsed, with one stored chapter. The first
  run fetches the document; the second, one second later, changes nothing.
\<close>

theorem retrieveLatestChapters_twice_witness:
  "(0::int) \<le> 1000 \<and>
   requests (snd (retrieveLatestChapters exEnv 0 ''e1''
      (exWorld [exEpisode ''e1'' True (Some ''u'') None] [exChapter ''m1'' ''e1'' 10 ''Old'']))) = [''u''] \<and>
   (case retrieveLatestChapters exEnv 0 ''e1''
      (exWorld [exEpisode ''e1'' True (Some ''u'') None] [exChapter ''m1'' ''e1'' 10 ''Old'']) of
      (r1, w1) \<Rightarrow> retrieveLatestChapters exEnv 1000 ''e1'' w1 = (r1, w1))"
  using retrieveLatestChapters_twice [where ?now1.0 = 0 and ?now2.0 = 1000 and en = exEnv
      and i = "''e1''" and
      w = "exWorld [exEpisode ''e1'' True (Some ''u'') None] [exChapter ''m1'' ''e1'' 10 ''Old'']"]
  by (simp add: ex_defs sync_defs)

subsection \<open>What a call returns\<close>

text \<open>
  Claim C6, as amended. \<open>retrieveLatestChapters\<close> throws exactly when no episode has the
  given id or the storage rejects one of the two queries that stand outside the
  \<^verbatim>\<open>try\<close>, the lookup of line 270 or the query of lines 345-359; a rejection is thrown
  on as it is, and when the lookup rejects or finds nothing the world is untouched. In
  every other case the call returns the official chapters of that episode as stored
  after the call, by ascending \<^verbatim>\<open>startTime\<close>, with their number. When the two queries
  are answered and the fetch or the parse of the document fails, the media references
  are the ones stored before the call, and the call returns the official chapters among
  them.
\<close>

theorem retrieveLatestChapters_result:
  "isl (fst (retrieveLatestChapters en now i w)) =
     (\<not> list_ex (\<lambda>e. ep_id e = i) (episodes w) \<or> episodeQueryError en i \<noteq> None \<or>
      chaptersQueryError en i \<noteq> None) \<and>
   (case retrieveLatestChapters en now i w of
      (Inl err, w') \<Rightarrow>
        episodeQueryError en i = Some err \<and> w' = w \<or>
        episodeQueryError en i = None \<and> \<not> list_ex (\<lambda>e. ep_id e = i) (episodes w) \<and> w' = w \<or>
        episodeQueryError en i = None \<and> list_ex (\<lambda>e. ep_id e = i) (episodes w) \<and>
          chaptersQueryError en i = Some err
    | (Inr (rows, n), w') \<Rightarrow>
        sorted (map mr_startTime rows) \<and>
        mset rows = mset (filter (\<lambda>m. mr_isOfficialChapter m \<and> mr_episodeId m = i) (mediaRefs w')) \<and>
        n = length rows) \<and>
   (\<forall>episode u. episodeQueryError en i = None \<and> chaptersQueryError en i = None \<and>
        find (\<lambda>e. ep_id e = i) (episodes w) = Some episode \<and>
        ep_chaptersUrl episode = Some u \<and> fetchOrParseFails en u \<longrightarrow>
        mediaRefs (snd (retrieveLatestChapters en now i w)) = mediaRefs w \<and>
        fst (retrieveLatestChapters en now i w) = Inr (officialChaptersForEpisode i w))"
proof (cases "episodeQueryError en i")
  case (Some err)
  then show ?thesis by (simp add: retrieveLatestChapters_def)
next
  case None
  note answered = None
  show ?thesis
  proof (cases "find (\<lambda>e. ep_id e = i) (episodes w)")
    case None
    then have "\<not> list_ex (\<lambda>e. ep_id e = i) (episodes w)"
      by (simp add: find_None_list_ex)
    with None answered show ?thesis
      by (simp add: retrieveLatestChapters_def)
  next
    case (Some episode)
    then have ex: "list_ex (\<lambda>e. ep_id e = i) (episodes w)"
      using find_None_list_ex [of "\<lambda>e. ep_id e = i" "episodes w"] by simp
    define w' where "w' = syncIfDue en now i episode w"
    have run: "retrieveLatestChapters en now i w =
        ((case chaptersQueryError en i of
            Some e \<Rightarrow> Inl e
          | None \<Rightarrow> Inr (officialChaptersForEpisode i w')), w')"
      unfolding w'_def using answered Some by (rule retrieve_found)
    have fail: "mediaRefs w' = mediaRefs w"
      if "ep_chaptersUrl episode = Some u" "fetchOrParseFails en u" for u
      using that by (simp add: w'_def syncIfDue_fails)
    show ?thesis
    proof (cases "chaptersQueryError en i")
      case (Some err)
      with ex answered show ?thesis unfolding run by simp
    next
      case None
      with ex answered fail show ?thesis
        unfolding run by (auto simp: Some officialChaptersForEpisode_def Let_def)
    qed
  qed
qed

text \<open>
  The amended property at an input whose fetch fails: the episode \<open>e1\<close> has two official
  chapters, stored out of order among a chapter of another episode. The call returns
  them in order, counts 2, and logs the error. For an id that no episode has, the call
  throws the error of line 271.
\<close>

theorem retrieveLatestChapters_result_witness:
  "episodeQueryError exFailEnv ''e1'' = None \<and> chaptersQueryError exFailEnv ''e1'' = None \<and>
   fetchOrParseFails exFailEnv ''u'' \<and>
   retrieveLatestChapters exFailEnv 0 ''e1''
     (exWorld [exEpisode ''e1'' True (Some ''u'') None]
        [exChapter ''m2'' ''e1'' 20 ''B'', exChapter ''m9'' ''e2'' 5 ''X'', exChapter ''m1'' ''e1'' 10 ''Old'']) =
     (Inr ([exChapter ''m1'' ''e1'' 10 ''Old'', exChapter ''m2'' ''e1'' 20 ''B''], 2),
      (exWorld [exEpisode ''e1'' True (Some ''u'') (Some 0)]
        [exChapter ''m2'' ''e1'' 20 ''B'', exChapter ''m9'' ''e2'' 5 ''X'', exChapter ''m1'' ''e1'' 10 ''Old''])
       \<lparr>requests := [''u''],
        console := [LogError ''retrieveLatestChapters request'' (RequestError ''ETIMEDOUT'')]\<rparr>) \<and>
   fst (retrieveLatestChapters exFailEnv 0 ''e0''
     (exWorld [exEpisode ''e1'' True (Some ''u'') None] [])) = Inl (Error ''Episode not found'')"
  using retrieveLatestChapters_result [where en = exFailEnv and now = 0 and i = "''e1''" and
      w = "exWorld [exEpisode ''e1'' True (Some ''u'') None]
        [exChapter ''m2'' ''e1'' 20 ''B'', exChapter ''m9'' ''e2'' 5 ''X'', exChapter ''m1'' ''e1'' 10 ''Old'']"]
  by (simp add: ex_defs sync_defs exFailEnv_def fetchOrParseFails_def)

text \<open>
  Claim C6 as it is written fails: the episode \<open>e1\<close> exists, has no chapters url (so
  nothing is fetched), and the storage rejects the query of lines 345-359. The call
  throws the rejection.
\<close>

theorem retrieveLatestChapters_result_counterexample:
  "list_ex (\<lambda>e. ep_id e = ''e1'')
     (episodes (exWorld [exEpisode ''e1'' True None None] [exChapter ''m1'' ''e1'' 10 ''Old''])) \<and>
   retrieveLatestChapters exDownEnv 0 ''e1''
     (exWorld [exEpisode ''e1'' True None None] [exChapter ''m1'' ''e1'' 10 ''Old'']) =
   (Inl (QueryFailedError ''Connection terminated unexpectedly''),
    exWorld [exEpisode ''e1'' True None None] [exChapter ''m1'' ''e1'' 10 ''Old''])"
  by (simp add: ex_defs sync_defs exDownEnv_def)

subsection \<open>The freshness condition\<close>

text \<open>
  Claim C1, evaluated on the code. The comment of lines 274-275 asks for one read of the
  remote document every 12 hours. Line 279 compares \<^verbatim>\<open>now + 12h\<close> with the instant of
  the last parse the other way round. First run: the episode was parsed 13 hours
  before the call; nothing is fetched, the world is unchanged and the stored title is
  returned although the remote document has another one. Second run: the last parse
  lies 13 hours after the call; the document is fetched and the chapter rewritten.
\<close>

theorem retrieveLatestChapters_freshness_inverted:
  "retrieveLatestChapters exEnv 46800000 ''e1''
     (exWorld [exEpisode ''e1'' True (Some ''u'') (Some 0)] [exChapter ''m1'' ''e1'' 10 ''Old'']) =
   (Inr ([exChapter ''m1'' ''e1'' 10 ''Old''], 1),
    exWorld [exEpisode ''e1'' True (Some ''u'') (Some 0)] [exChapter ''m1'' ''e1'' 10 ''Old'']) \<and>
   retrieveLatestChapters exEnv 0 ''e1''
     (exWorld [exEpisode ''e1'' True (Some ''u'') (Some 46800000)] [exChapter ''m1'' ''e1'' 10 ''Old'']) =
   (Inr ([exChapter ''m1'' ''e1'' 10 ''A''], 1),
    (exWorld [exEpisode ''e1'' True (Some ''u'') (Some 0)] [exChapter ''m1'' ''e1'' 10 ''A''])
      \<lparr>requests := [''u'']\<rparr>)"
  by (simp add: ex_defs sync_defs)

subsection \<open>Chapters of other episodes\<close>

text \<open>
  Claim C2, evaluated on the code. The query of lines 286-292 reads the official
  chapters of every episode, the query of lines 345-359 those of the episode asked for.
  A run for the episode \<open>e1\<close>, whose document has the one chapter at 10, in a world
  where only the episode \<open>e2\<close> has official chapters, at 10 and at 20: the chapter of
  \<open>e2\<close> at 10 is given the remote title and moved to \<open>e1\<close>, the chapter of \<open>e2\<close> at 20
  is made non-public.
\<close>

theorem retrieveLatestChapters_touches_other_episode:
  "retrieveLatestChapters exEnv 0 ''e1''
     (exWorld [exEpisode ''e1'' True (Some ''u'') None, exEpisode ''e2'' True None None]
        [exChapter ''x1'' ''e2'' 10 ''X'', exChapter ''x2'' ''e2'' 20 ''Y'']) =
   (Inr ([exChapter ''x1'' ''e1'' 10 ''A''], 1),
    (exWorld [exEpisode ''e1'' True (Some ''u'') (Some 0), exEpisode ''e2'' True None None]
        [exChapter ''x1'' ''e1'' 10 ''A'', (exChapter ''x2'' ''e2'' 20 ''Y'')\<lparr>mr_isPublic := False\<rparr>])
      \<lparr>requests := [''u'']\<rparr>)"
  by (simp add: ex_defs sync_defs)

subsection \<open>A failure while suppressing\<close>

text \<open>
  Claim C4, evaluated on the code. The storage fails on the reference \<open>m2\<close>. First
  run: the document has the one chapter at 10, so the stored chapters \<open>m2\<close> (at 20) and
  \<open>m3\<close> (at 30) are both dead. The update of \<open>m2\<close> throws in the loop of lines 300-305,
  which has no handler: the handler of line 340 logs the error, \<open>m3\<close> stays public and
  the chapter at 10 is never created, while the call itself returns. Second run, for
  comparison: the document has chapters at 20 and 30, so the same failure happens
  inside the loop of lines 307-338; its own handler logs it and \<open>m3\<close> is still updated.
\<close>

theorem retrieveLatestChapters_suppress_failure_aborts:
  "retrieveLatestChapters exStorageFailEnv 0 ''e1''
     (exWorld [exEpisode ''e1'' True (Some ''u'') None]
        [exChapter ''m2'' ''e1'' 20 ''B'', exChapter ''m3'' ''e1'' 30 ''C'']) =
   (Inr ([exChapter ''m2'' ''e1'' 20 ''B'', exChapter ''m3'' ''e1'' 30 ''C''], 2),
    (exWorld [exEpisode ''e1'' True (Some ''u'') (Some 0)]
        [exChapter ''m2'' ''e1'' 20 ''B'', exChapter ''m3'' ''e1'' 30 ''C''])
      \<lparr>requests := [''u''],
       console := [LogError ''retrieveLatestChapters request''
          (QueryFailedError ''connection terminated'')]\<rparr>) \<and>
   retrieveLatestChapters (exStorageFailEnv\<lparr>JSON_parse := (\<lambda>s. Inr exDoc2)\<rparr>) 0 ''e1''
     (exWorld [exEpisode ''e1'' True (Some ''u'') None]
        [exChapter ''m2'' ''e1'' 20 ''B'', exChapter ''m3'' ''e1'' 30 ''C'']) =
   (Inr ([exChapter ''m2'' ''e1'' 20 ''B'', exChapter ''m3'' ''e1'' 30 ''C2''], 2),
    (exWorld [exEpisode ''e1'' True (Some ''u'') (Some 0)]
        [exChapter ''m2'' ''e1'' 20 ''B'', exChapter ''m3'' ''e1'' 30 ''C2''])
      \<lparr>requests := [''u''],
       console := [LogError ''retrieveLatestChapters newChapter''
          (QueryFailedError ''connection terminated'')]\<rparr>)"
  by (simp add: ex_defs sync_defs exStorageFailEnv_def exDoc2_def failing_updateMediaRef_def)

subsection \<open>Reconciliation by start time\<close>

lemma distinct_ids_eq:
  "distinct (map mr_id t) \<Longrightarrow> m \<in> set t \<Longrightarrow> m' \<in> set t \<Longrightarrow> mr_id m = mr_id m' \<Longrightarrow> m = m'"
  by (meson distinct_map inj_onD)

lemma spec_updateMediaRef_existing:
  "m0 \<in> set t \<Longrightarrow> obj_id obj = Some (mr_id m0) \<Longrightarrow>
   spec_updateMediaRef obj u t =
     Inr (map (\<lambda>m. if mr_id m = mr_id m0 then assignObj m obj else m) t)"
  by (auto simp: spec_updateMediaRef_def list_ex_iff)

lemma toRaw_isPublic: "toRaw (m\<lparr>mr_isPublic := b\<rparr>) = toRaw m"
  by (simp add: toRaw_def)

lemma assignObj_dead: "assignObj m (deadChapterObj (toRaw m)) = m\<lparr>mr_isPublic := False\<rparr>"
  by (simp add: assignObj_def deadChapterObj_def toRaw_def emptyObj_def)

lemma suppress_step:
  assumes "distinct (map mr_id t)" "m0 \<in> set t"
  shows "spec_updateMediaRef (deadChapterObj (toRaw m0)) u t =
     Inr (map (\<lambda>m. if toRaw m = toRaw m0 then m\<lparr>mr_isPublic := False\<rparr> else m) t)"
proof -
  have id: "obj_id (deadChapterObj (toRaw m0)) = Some (mr_id m0)"
    by (simp add: deadChapterObj_def toRaw_def emptyObj_def)
  have "map (\<lambda>m. if mr_id m = mr_id m0 then assignObj m (deadChapterObj (toRaw m0)) else m) t =
        map (\<lambda>m. if toRaw m = toRaw m0 then m\<lparr>mr_isPublic := False\<rparr> else m) t"
  proof (rule map_cong [OF refl])
    fix m assume m: "m \<in> set t"
    show "(if mr_id m = mr_id m0 then assignObj m (deadChapterObj (toRaw m0)) else m) =
          (if toRaw m = toRaw m0 then m\<lparr>mr_isPublic := False\<rparr> else m)"
    proof (cases "mr_id m = mr_id m0")
      case True
      with assms m have "m = m0" by (blast intro: distinct_ids_eq)
      then show ?thesis by (simp add: assignObj_dead)
    next
      case False
      then have "toRaw m \<noteq> toRaw m0" by (auto simp: toRaw_def)
      with False show ?thesis by simp
    qed
  qed
  with spec_updateMediaRef_existing [OF assms(2) id] show ?thesis by simp
qed

lemma suppressed_ids:
  "map mr_id (map (\<lambda>m. if P m then m\<lparr>mr_isPublic := b\<rparr> else m) t) = map mr_id t"
  by (induction t) auto

lemma suppressed_raws:
  "map toRaw (map (\<lambda>m. if P m then m\<lparr>mr_isPublic := b\<rparr> else m) t) = map toRaw t"
  by (induction t) (auto simp: toRaw_isPublic)

lemma suppressed_twice:
  "map (\<lambda>m. if toRaw m \<in> set ds then m\<lparr>mr_isPublic := False\<rparr> else m)
     (map (\<lambda>m. if toRaw m = d then m\<lparr>mr_isPublic := False\<rparr> else m) t) =
   map (\<lambda>m. if toRaw m \<in> set (d # ds) then m\<lparr>mr_isPublic := False\<rparr> else m) t"
  by (induction t) auto

lemma suppressDeadChapters_spec:
  assumes "updateMediaRef en = spec_updateMediaRef"
  shows "distinct (map mr_id (mediaRefs w)) \<Longrightarrow> set ds \<subseteq> toRaw ` set (mediaRefs w) \<Longrightarrow>
     suppressDeadChapters en ds w =
       (None, w\<lparr>mediaRefs :=
          map (\<lambda>m. if toRaw m \<in> set ds then m\<lparr>mr_isPublic := False\<rparr> else m) (mediaRefs w)\<rparr>)"
proof (induction ds arbitrary: w)
  case Nil
  then show ?case by simp
next
  case (Cons d ds)
  then obtain m0 where m0: "m0 \<in> set (mediaRefs w)" "d = toRaw m0" by auto
  let ?t' = "map (\<lambda>m. if toRaw m = toRaw m0 then m\<lparr>mr_isPublic := False\<rparr> else m) (mediaRefs w)"
  have step: "updateMediaRef en (deadChapterObj d) (superUserId en) (mediaRefs w) = Inr ?t'"
    using suppress_step [OF Cons.prems(1) m0(1)] assms m0(2) by simp
  have ids: "map mr_id ?t' = map mr_id (mediaRefs w)"
    by (rule suppressed_ids)
  have "map toRaw ?t' = map toRaw (mediaRefs w)"
    by (rule suppressed_raws)
  then have raws: "toRaw ` set ?t' = toRaw ` set (mediaRefs w)"
    by (metis set_map)
  have d1: "distinct (map mr_id (mediaRefs (w\<lparr>mediaRefs := ?t'\<rparr>)))"
    using Cons.prems(1) by (simp add: ids del: map_map)
  have d2: "set ds \<subseteq> toRaw ` set (mediaRefs (w\<lparr>mediaRefs := ?t'\<rparr>))"
    using Cons.prems(2) by (simp add: raws del: set_map map_map)
  have "suppressDeadChapters en ds (w\<lparr>mediaRefs := ?t'\<rparr>) =
       (None, (w\<lparr>mediaRefs := ?t'\<rparr>)\<lparr>mediaRefs :=
          map (\<lambda>m. if toRaw m \<in> set ds then m\<lparr>mr_isPublic := False\<rparr> else m)
            (mediaRefs (w\<lparr>mediaRefs := ?t'\<rparr>))\<rparr>)"
    using d1 d2 by (rule Cons.IH)
  then have "suppressDeadChapters en ds (w\<lparr>mediaRefs := ?t'\<rparr>) =
       (None, w\<lparr>mediaRefs :=
          map (\<lambda>m. if toRaw m \<in> set (d # ds) then m\<lparr>mr_isPublic := False\<rparr> else m) (mediaRefs w)\<rparr>)"
    unfolding m0(2) [symmetric] by (simp add: suppressed_twice del: map_map set_simps)
  then show ?case
    using step by (simp del: set_simps)
qed



lemma find_unique:
  assumes "x \<in> set xs" "P x" "\<forall>y \<in> set xs. P y \<longrightarrow> y = x"
  shows "find P xs = Some x"
  using assms
proof (induction xs)
  case Nil
  then show ?case by simp
next
  case (Cons a xs)
  show ?case
  proof (cases "P a")
    case True
    then have "a = x" using Cons.prems(3) by simp
    with True show ?thesis by simp
  next
    case False
    then have "x \<in> set xs" using Cons.prems(1,2) by auto
    moreover have "\<forall>y \<in> set xs. P y \<longrightarrow> y = x" using Cons.prems(3) by simp
    ultimately have "find P xs = Some x" using Cons.prems(2) by (intro Cons.IH)
    with False show ?thesis by simp
  qed
qed

lemma in_set_mapI: "x \<in> set t \<Longrightarrow> f x = y \<Longrightarrow> y \<in> set (map f t)"
  by auto

lemma toRaw_sel:
  "raw_id (toRaw m) = mr_id m"
  "raw_startTime (toRaw m) = mr_startTime m"
  "raw_isOfficialChapter (toRaw m) = mr_isOfficialChapter m"
  by (simp_all add: toRaw_def)

lemma dead_iff:
  assumes dist: "distinct (map mr_id t)" and m: "m \<in> set t"
  shows "(toRaw m \<in> set (deadChaptersOf (map toRaw (filter mr_isOfficialChapter t)) [c])) =
      (mr_isOfficialChapter m \<and> mr_startTime m \<noteq> rc_startTime c)"
proof
  assume "toRaw m \<in> set (deadChaptersOf (map toRaw (filter mr_isOfficialChapter t)) [c])"
  then have "toRaw m \<in> toRaw ` {x \<in> set t. mr_isOfficialChapter x \<and> rc_startTime c \<noteq> mr_startTime x}"
    by (simp add: deadChaptersOf_def filter_map o_def image_def toRaw_sel)
  then obtain m' where m': "m' \<in> set t" "mr_isOfficialChapter m'"
      "rc_startTime c \<noteq> mr_startTime m'" "toRaw m = toRaw m'"
    by blast
  from m'(4) have "raw_id (toRaw m) = raw_id (toRaw m')" by (rule arg_cong)
  then have "mr_id m = mr_id m'" by (simp add: toRaw_sel)
  with dist m m'(1) have "m = m'" by (rule distinct_ids_eq)
  with m' show "mr_isOfficialChapter m \<and> mr_startTime m \<noteq> rc_startTime c" by auto
next
  assume "mr_isOfficialChapter m \<and> mr_startTime m \<noteq> rc_startTime c"
  with m have "m \<in> {x \<in> set t. mr_isOfficialChapter x \<and> rc_startTime c \<noteq> mr_startTime x}"
    by auto
  then have "toRaw m \<in> toRaw ` {x \<in> set t. mr_isOfficialChapter x \<and> rc_startTime c \<noteq> mr_startTime x}"
    by (rule imageI)
  then show "toRaw m \<in> set (deadChaptersOf (map toRaw (filter mr_isOfficialChapter t)) [c])"
    by (simp add: deadChaptersOf_def filter_map o_def image_def toRaw_sel)
qed

lemma dead_subset:
  "set (deadChaptersOf (map toRaw (filter mr_isOfficialChapter t)) cs) \<subseteq> toRaw ` set t"
  unfolding deadChaptersOf_def by (induction t) (auto simp: toRaw_sel)

lemma find_existing:
  assumes c10: "c10 \<in> set t" "mr_isOfficialChapter c10" "mr_startTime c10 = s"
    and uniq: "\<forall>m \<in> set t. mr_isOfficialChapter m \<and> mr_startTime m = s \<longrightarrow> m = c10"
  shows "find (\<lambda>x. raw_startTime x = s) (map toRaw (filter mr_isOfficialChapter t)) = Some (toRaw c10)"
proof (rule find_unique)
  show "toRaw c10 \<in> set (map toRaw (filter mr_isOfficialChapter t))"
    using c10(1,2) by simp
  show "raw_startTime (toRaw c10) = s"
    using c10(3) by (simp add: toRaw_sel)
  show "\<forall>y \<in> set (map toRaw (filter mr_isOfficialChapter t)). raw_startTime y = s \<longrightarrow> y = toRaw c10"
  proof
    fix y assume "y \<in> set (map toRaw (filter mr_isOfficialChapter t))"
    then obtain m where m: "m \<in> set t" "mr_isOfficialChapter m" "y = toRaw m"
      by auto
    show "raw_startTime y = s \<longrightarrow> y = toRaw c10"
    proof
      assume "raw_startTime y = s"
      then have "mr_startTime m = s" using m(3) by (simp add: toRaw_sel)
      with m uniq have "m = c10" by blast
      then show "y = toRaw c10" using m(3) by simp
    qed
  qed
qed

lemma syncChapters_one_chapter:
  assumes gw: "updateMediaRef en = spec_updateMediaRef"
    and dist: "distinct (map mr_id (mediaRefs w))"
    and req: "request en u = Inr response"
    and parse: "JSON_parse en response = Inr parsed"
    and doc: "chapters parsed = Some [c]"
    and c10: "c10 \<in> set (mediaRefs w)" "mr_isOfficialChapter c10"
      "mr_startTime c10 = rc_startTime c" "mr_id c10 \<noteq> []"
    and uniq: "\<forall>m \<in> set (mediaRefs w).
        mr_isOfficialChapter m \<and> mr_startTime m = rc_startTime c \<longrightarrow> m = c10"
  shows "syncChapters en now i u w =
     (None, (markParsed now i w)\<lparr>requests := requests w @ [u],
        mediaRefs := map (\<lambda>m.
          if m = c10 then assignObj c10 (updateChapterObj i (toRaw c10) c)
          else if mr_isOfficialChapter m \<and> mr_startTime m \<noteq> rc_startTime c
               then m\<lparr>mr_isPublic := False\<rparr> else m) (mediaRefs w)\<rparr>)"
proof -
  define w2 where "w2 = (markParsed now i w)\<lparr>requests := requests (markParsed now i w) @ [u]\<rparr>"
  define existing where "existing = map toRaw (filter mr_isOfficialChapter (mediaRefs w))"
  define dead where "dead = deadChaptersOf existing [c]"
  let ?t0 = "mediaRefs w"
  let ?f = "\<lambda>m. if toRaw m \<in> set dead then m\<lparr>mr_isPublic := False\<rparr> else m"
  let ?obj = "updateChapterObj i (toRaw c10) c"
  let ?h = "\<lambda>m. if m = c10 then assignObj c10 ?obj
          else if mr_isOfficialChapter m \<and> mr_startTime m \<noteq> rc_startTime c
               then m\<lparr>mr_isPublic := False\<rparr> else m"
  have t2: "mediaRefs w2 = ?t0" by (simp add: w2_def markParsed_def)
  have ex: "existingChaptersOf w2 = existing"
    by (simp add: existingChaptersOf_def t2 existing_def)
  have sub: "set dead \<subseteq> toRaw ` set (mediaRefs w2)"
    unfolding dead_def existing_def t2 by (rule dead_subset)
  have dist2: "distinct (map mr_id (mediaRefs w2))"
    using dist by (simp only: t2)
  have supp: "suppressDeadChapters en dead w2 = (None, w2\<lparr>mediaRefs := map ?f ?t0\<rparr>)"
    using suppressDeadChapters_spec [OF gw dist2 sub] by (simp only: t2)
  have deadiff: "(toRaw m \<in> set dead) =
      (mr_isOfficialChapter m \<and> mr_startTime m \<noteq> rc_startTime c)" if "m \<in> set ?t0" for m
    unfolding dead_def existing_def using dist that by (rule dead_iff)
  have fnd: "find (\<lambda>x. raw_startTime x = rc_startTime c) existing = Some (toRaw c10)"
    unfolding existing_def using c10(1,2,3) uniq by (rule find_existing)
  have nd: "toRaw c10 \<notin> set dead"
    using deadiff [OF c10(1)] c10(3) by simp
  have fc10: "?f c10 = c10"
    using nd by simp
  have in1: "c10 \<in> set (map ?f ?t0)"
    by (rule in_set_mapI [where f = "?f" and x = c10, OF c10(1) fc10])
  have oid: "obj_id ?obj = Some (mr_id c10)"
    by (simp add: updateChapterObj_def emptyObj_def toRaw_sel)
  have upd: "spec_updateMediaRef ?obj (superUserId en) (map ?f ?t0) =
      Inr (map (\<lambda>m. if mr_id m = mr_id c10 then assignObj m ?obj else m) (map ?f ?t0))"
    using in1 oid by (rule spec_updateMediaRef_existing)
  have pointwise: "(if mr_id (?f m) = mr_id c10 then assignObj (?f m) ?obj else ?f m) = ?h m"
    if m: "m \<in> set ?t0" for m
  proof (cases "m = c10")
    case True
    then show ?thesis using nd by simp
  next
    case False
    with dist m c10(1) have "mr_id m \<noteq> mr_id c10"
      by (blast dest: distinct_ids_eq)
    with False show ?thesis
      using deadiff [OF m] by simp
  qed
  have final: "map (\<lambda>m. if mr_id m = mr_id c10 then assignObj m ?obj else m) (map ?f ?t0) =
      map ?h ?t0"
    unfolding map_map o_def by (rule map_cong [OF refl]) (rule pointwise)
  have one: "reconcileChapter en i existing c (w2\<lparr>mediaRefs := map ?f ?t0\<rparr>) =
      w2\<lparr>mediaRefs := map ?h ?t0\<rparr>"
    unfolding reconcileChapter_def fnd gw
    using c10(4) by (simp add: upd final toRaw_sel del: map_map set_map)
  have "syncChapters en now i u w = (None, w2\<lparr>mediaRefs := map ?h ?t0\<rparr>)"
    unfolding syncChapters_def Let_def w2_def [symmetric] ex
    by (simp add: req parse doc supp [unfolded dead_def] one [unfolded dead_def]
        del: map_map set_map)
  then show ?thesis
    by (simp add: w2_def markParsed_def)
qed

text \<open>
  A run in a table where no other episode has an official chapter at the start time of
  the document. The storage works as the specification says, the lookup of line 270 is
  answered, the episode is due for a read (line 279), the document has the one chapter
  \<^verbatim>\<open>{startTime: 10, title: "A"}\<close>, the identifiers of the stored media references are
  distinct, and among them are the official chapters \<open>chTen\<close> (at 10, titled "Old") and
  \<open>chTwenty\<close> (at 20, titled "B") of the episode; \<open>chTen\<close> is the only official chapter
  of the whole table stored at 10. After the run the table holds the same identifiers
  in the same order, so nothing was deleted or created; \<open>chTen\<close> is stored with the
  title "A" and public; \<open>chTwenty\<close> is stored non-public; every official chapter at 10
  is that one, and every official chapter at 20 is non-public.
\<close>

lemma reconcile_unique_start_time:
  assumes gw: "updateMediaRef en = spec_updateMediaRef"
    and answered: "episodeQueryError en i = None"
    and ep: "find (\<lambda>e. ep_id e = i) (episodes w) = Some episode"
      "ep_chaptersUrl episode = Some u" "shouldSync now episode"
    and req: "request en u = Inr response"
    and parse: "JSON_parse en response = Inr parsed"
    and doc: "chapters parsed = Some [c]" "rc_startTime c = 10" "rc_title c = Some ''A''"
    and dist: "distinct (map mr_id (mediaRefs w))"
    and chTen: "chTen \<in> set (mediaRefs w)" "mr_isOfficialChapter chTen" "mr_episodeId chTen = i"
      "mr_startTime chTen = 10" "mr_title chTen = Some ''Old''" "mr_id chTen \<noteq> []"
    and chTwenty: "chTwenty \<in> set (mediaRefs w)" "mr_isOfficialChapter chTwenty" "mr_episodeId chTwenty = i"
      "mr_startTime chTwenty = 20" "mr_title chTwenty = Some ''B''"
    and uniq: "\<forall>m \<in> set (mediaRefs w). mr_isOfficialChapter m \<and> mr_startTime m = 10 \<longrightarrow> m = chTen"
  shows "(case retrieveLatestChapters en now i w of (r, w') \<Rightarrow>
      map mr_id (mediaRefs w') = map mr_id (mediaRefs w) \<and>
      chTen\<lparr>mr_title := Some ''A'', mr_imageUrl := orNull (rc_img c), mr_linkUrl := orNull (rc_url c),
           mr_isPublic := True\<rparr> \<in> set (mediaRefs w') \<and>
      chTwenty\<lparr>mr_isPublic := False\<rparr> \<in> set (mediaRefs w') \<and>
      (\<forall>m \<in> set (mediaRefs w'). mr_isOfficialChapter m \<and> mr_startTime m = 10 \<longrightarrow>
          mr_id m = mr_id chTen \<and> mr_title m = Some ''A'' \<and> mr_isPublic m) \<and>
      (\<forall>m \<in> set (mediaRefs w'). mr_isOfficialChapter m \<and> mr_startTime m = 20 \<longrightarrow>
          \<not> mr_isPublic m))"
proof -
  define new10 where "new10 = chTen\<lparr>mr_title := Some ''A'', mr_imageUrl := orNull (rc_img c),
      mr_linkUrl := orNull (rc_url c), mr_isPublic := True\<rparr>"
  define h where "h = (\<lambda>m. if m = chTen then new10
          else if mr_isOfficialChapter m \<and> mr_startTime m \<noteq> 10
               then m\<lparr>mr_isPublic := False\<rparr> else m)"
  define w' where "w' = snd (retrieveLatestChapters en now i w)"
  have uniq': "\<forall>m \<in> set (mediaRefs w).
        mr_isOfficialChapter m \<and> mr_startTime m = rc_startTime c \<longrightarrow> m = chTen"
    using uniq by (simp only: doc(2))
  have st: "mr_startTime chTen = rc_startTime c"
    by (simp only: doc(2) chTen(4))
  have n10: "assignObj chTen (updateChapterObj i (toRaw chTen) c) = new10"
    unfolding new10_def
    by (simp add: assignObj_def updateChapterObj_def emptyObj_def toRaw_sel chTen(2,3,4) doc(2,3))
  have sync: "syncChapters en now i u w =
     (None, (markParsed now i w)\<lparr>requests := requests w @ [u], mediaRefs := map h (mediaRefs w)\<rparr>)"
    using syncChapters_one_chapter [OF gw dist req parse doc(1) chTen(1,2) st chTen(6) uniq',
        where now = now and i = i]
    unfolding n10 doc(2) h_def .
  have run: "retrieveLatestChapters en now i w = (fst (retrieveLatestChapters en now i w), w')"
    by (simp add: w'_def)
  have t': "mediaRefs w' = map h (mediaRefs w)"
    unfolding w'_def retrieve_found [OF answered ep(1)]
    by (simp add: syncIfDue_def ep sync catchSync_def)
  have hid: "mr_id (h m) = mr_id m" for m
    by (simp add: h_def new10_def)
  have ids: "map mr_id (map h (mediaRefs w)) = map mr_id (mediaRefs w)"
    unfolding map_map o_def hid by simp
  have h10: "h chTen = new10" by (simp add: h_def)
  have in10: "new10 \<in> set (map h (mediaRefs w))"
    using chTen(1) h10 by (rule in_set_mapI)
  have ne: "chTwenty \<noteq> chTen" using chTen(4) chTwenty(4) by auto
  have h20: "h chTwenty = chTwenty\<lparr>mr_isPublic := False\<rparr>"
    using ne chTwenty(2,4) by (simp add: h_def)
  have in20: "chTwenty\<lparr>mr_isPublic := False\<rparr> \<in> set (map h (mediaRefs w))"
    using chTwenty(1) h20 by (rule in_set_mapI)
  have p10: "mr_isOfficialChapter (h m) \<and> mr_startTime (h m) = 10 \<longrightarrow>
      mr_id (h m) = mr_id chTen \<and> mr_title (h m) = Some ''A'' \<and> mr_isPublic (h m)"
    if m: "m \<in> set (mediaRefs w)" for m
  proof (cases "m = chTen")
    case True
    then show ?thesis by (simp add: h_def new10_def)
  next
    case False
    with uniq m have "\<not> (mr_isOfficialChapter m \<and> mr_startTime m = 10)" by blast
    with False show ?thesis by (simp add: h_def)
  qed
  have p20: "mr_isOfficialChapter (h m) \<and> mr_startTime (h m) = 20 \<longrightarrow> \<not> mr_isPublic (h m)" for m
  proof (cases "m = chTen")
    case True
    then show ?thesis using chTen(4) by (simp add: h_def new10_def)
  next
    case False
    then show ?thesis by (auto simp: h_def)
  qed
  have all10: "\<forall>m \<in> set (map h (mediaRefs w)). mr_isOfficialChapter m \<and> mr_startTime m = 10 \<longrightarrow>
          mr_id m = mr_id chTen \<and> mr_title m = Some ''A'' \<and> mr_isPublic m"
    using p10 by (simp only: set_map ball_simps) blast
  have all20: "\<forall>m \<in> set (map h (mediaRefs w)). mr_isOfficialChapter m \<and> mr_startTime m = 20 \<longrightarrow>
          \<not> mr_isPublic m"
    using p20 by (simp only: set_map ball_simps) blast
  have concl: "map mr_id (mediaRefs w') = map mr_id (mediaRefs w) \<and>
      new10 \<in> set (mediaRefs w') \<and>
      chTwenty\<lparr>mr_isPublic := False\<rparr> \<in> set (mediaRefs w') \<and>
      (\<forall>m \<in> set (mediaRefs w'). mr_isOfficialChapter m \<and> mr_startTime m = 10 \<longrightarrow>
          mr_id m = mr_id chTen \<and> mr_title m = Some ''A'' \<and> mr_isPublic m) \<and>
      (\<forall>m \<in> set (mediaRefs w'). mr_isOfficialChapter m \<and> mr_startTime m = 20 \<longrightarrow>
          \<not> mr_isPublic m)"
    unfolding t' by (intro conjI ids in10 in20 all10 all20)
  show ?thesis
    by (subst run) (simp only: prod.case, rule concl [unfolded new10_def])
qed

text \<open>
  Such a run: the two chapters are all that is stored. It returns them in order, the
  first retitled, the second non-public.
\<close>

lemma reconcile_unique_start_time_example:
  "retrieveLatestChapters exEnv 0 ''e1''
     (exWorld [exEpisode ''e1'' True (Some ''u'') None]
        [exChapter ''m1'' ''e1'' 10 ''Old'', exChapter ''m2'' ''e1'' 20 ''B'']) =
   (Inr ([exChapter ''m1'' ''e1'' 10 ''A'', (exChapter ''m2'' ''e1'' 20 ''B'')\<lparr>mr_isPublic := False\<rparr>], 2),
    (exWorld [exEpisode ''e1'' True (Some ''u'') (Some 0)]
        [exChapter ''m1'' ''e1'' 10 ''A'', (exChapter ''m2'' ''e1'' 20 ''B'')\<lparr>mr_isPublic := False\<rparr>])
      \<lparr>requests := [''u'']\<rparr>)"
  by (simp add: ex_defs sync_defs)

text \<open>
  Claim C3, evaluated on the code. The query of lines 286-292 reads the official
  chapters of every episode, and line 311 takes the first of them at the start time of
  the remote chapter. The episode \<open>e1\<close> has the official chapters \<open>m1\<close> (at 10, titled
  "Old") and \<open>m2\<close> (at 20, titled "B"), its document has the one chapter
  \<^verbatim>\<open>{startTime: 10, title: "A"}\<close>, and the episode \<open>e2\<close> has the official chapter \<open>x1\<close> at
  10, stored before them. The run for \<open>e1\<close> gives the title "A" to \<open>x1\<close> and moves it to
  \<open>e1\<close>; the chapter \<open>m1\<close> of \<open>e1\<close> keeps the title "Old". \<open>m2\<close> is made non-public and
  nothing is deleted.
\<close>

theorem retrieveLatestChapters_keeps_old_title:
  "retrieveLatestChapters exEnv 0 ''e1''
     (exWorld [exEpisode ''e1'' True (Some ''u'') None, exEpisode ''e2'' True None None]
        [exChapter ''x1'' ''e2'' 10 ''X'', exChapter ''m1'' ''e1'' 10 ''Old'',
         exChapter ''m2'' ''e1'' 20 ''B'']) =
   (Inr ([exChapter ''x1'' ''e1'' 10 ''A'', exChapter ''m1'' ''e1'' 10 ''Old'',
          (exChapter ''m2'' ''e1'' 20 ''B'')\<lparr>mr_isPublic := False\<rparr>], 3),
    (exWorld [exEpisode ''e1'' True (Some ''u'') (Some 0), exEpisode ''e2'' True None None]
        [exChapter ''x1'' ''e1'' 10 ''A'', exChapter ''m1'' ''e1'' 10 ''Old'',
         (exChapter ''m2'' ''e1'' 20 ''B'')\<lparr>mr_isPublic := False\<rparr>])
      \<lparr>requests := [''u'']\<rparr>)"
  by (simp add: ex_defs sync_defs)

section \<open>Properties of the Dead-Episode Reaper\<close>

lemma removeEpisodes_eq:
  "removeEpisodes ids w = w\<lparr>episodes := filter (\<lambda>e. ep_id e \<notin> set ids) (episodes w)\<rparr>"
proof (induction ids arbitrary: w)
  case Nil
  show ?case by simp
next
  case (Cons a ids)
  have "filter (\<lambda>e. ep_id e \<notin> set ids) (filter (\<lambda>e. ep_id e \<noteq> a) (episodes w)) =
        filter (\<lambda>e. ep_id e \<notin> set (a # ids)) (episodes w)"
    by (induction "episodes w") auto
  then show ?case by (simp add: Cons.IH)
qed

lemma removeDeadEpisodes_eq:
  "removeDeadEpisodes w =
     (length (take 100 (filter (isDead w) (episodes w))) = 100,
      w\<lparr>console := console w @ [LogCount ''dead episode count:''
             (length (take 100 (filter (isDead w) (episodes w))))],
        episodes := filter (\<lambda>e. ep_id e \<notin> set (map ep_id (take 100 (filter (isDead w) (episodes w)))))
             (episodes w)\<rparr>)"
  by (simp add: removeDeadEpisodes_def getDeadEpisodes_def removeEpisodes_eq Let_def
      del: length_take set_map)

text \<open>
  Claim C7. One pass of \<open>removeDeadEpisodes\<close> selects at most 100 episodes, each of them
  stored, non-public and without a media reference; after the pass the episode table
  holds exactly the episodes that were not selected, and the media references are
  untouched. The pass returns true exactly when 100 episodes were selected: it returns
  true when 100 episodes are eligible, and false when 37 are.
\<close>

theorem removeDeadEpisodes_pass:
  "(let eligible = filter (isDead w) (episodes w); selected = take 100 eligible in
      length selected \<le> 100 \<and>
      (\<forall>e \<in> set selected. e \<in> set (episodes w) \<and> \<not> ep_isPublic e \<and>
          (\<forall>m \<in> set (mediaRefs w). mr_episodeId m \<noteq> ep_id e)) \<and>
      episodes (snd (removeDeadEpisodes w)) =
        filter (\<lambda>e. ep_id e \<notin> set (map ep_id selected)) (episodes w) \<and>
      mediaRefs (snd (removeDeadEpisodes w)) = mediaRefs w \<and>
      fst (removeDeadEpisodes w) = (length selected = 100) \<and>
      (length eligible = 100 \<longrightarrow> fst (removeDeadEpisodes w)) \<and>
      (length eligible = 37 \<longrightarrow> \<not> fst (removeDeadEpisodes w)))"
proof -
  define eligible where "eligible = filter (isDead w) (episodes w)"
  define selected where "selected = take 100 eligible"
  have r: "removeDeadEpisodes w =
     (length selected = 100,
      w\<lparr>console := console w @ [LogCount ''dead episode count:'' (length selected)],
        episodes := filter (\<lambda>e. ep_id e \<notin> set (map ep_id selected)) (episodes w)\<rparr>)"
    unfolding selected_def eligible_def by (rule removeDeadEpisodes_eq)
  have c1: "length selected \<le> 100"
    by (simp add: selected_def)
  have c2: "\<forall>e \<in> set selected. e \<in> set (episodes w) \<and> \<not> ep_isPublic e \<and>
      (\<forall>m \<in> set (mediaRefs w). mr_episodeId m \<noteq> ep_id e)"
    unfolding selected_def eligible_def
    by (auto dest!: in_set_takeD simp: isDead_def list_ex_iff)
  have c3: "episodes (snd (removeDeadEpisodes w)) =
        filter (\<lambda>e. ep_id e \<notin> set (map ep_id selected)) (episodes w)"
    unfolding r by simp
  have c4: "mediaRefs (snd (removeDeadEpisodes w)) = mediaRefs w"
    unfolding r by simp
  have c5: "fst (removeDeadEpisodes w) = (length selected = 100)"
    unfolding r by simp
  have c6: "length eligible = 100 \<longrightarrow> fst (removeDeadEpisodes w)"
    unfolding c5 by (simp add: selected_def)
  have c7: "length eligible = 37 \<longrightarrow> \<not> fst (removeDeadEpisodes w)"
    unfolding c5 by (simp add: selected_def)
  from c1 c2 c3 c4 c5 c6 c7 show ?thesis
    unfolding Let_def eligible_def[symmetric] selected_def[symmetric] by blast
qed

text \<open>
  The property at an input with 37 eligible episodes: the pass returns false, and the
  public episode and the episode with a clip are what is left.
\<close>

theorem removeDeadEpisodes_pass_witness:
  "length (filter (isDead exReaperWorld) (episodes exReaperWorld)) = 37 \<and>
   \<not> fst (removeDeadEpisodes exReaperWorld) \<and>
   map ep_id (episodes (snd (removeDeadEpisodes exReaperWorld))) = [''pub'', ''clip'']"
proof -
  have n: "length (filter (isDead exReaperWorld) (episodes exReaperWorld)) = 37"
    by code_simp
  have ids: "map ep_id (filter (\<lambda>e. ep_id e \<notin> set (map ep_id
       (take 100 (filter (isDead exReaperWorld) (episodes exReaperWorld))))) (episodes exReaperWorld))
       = [''pub'', ''clip'']"
    by code_simp
  show ?thesis
    using removeDeadEpisodes_pass [of exReaperWorld] n ids by (simp add: Let_def del: set_map)
qed

section \<open>Properties of the episode listings\<close>

lemmas listing_defs = getEpisodesByPodcastIds_def getEpisodesByPodcastId_def
  getEpisodesByCategoryIds_def getEpisodes_def handleMostRecentEpisodesQuery_def
  handleGetEpisodesWithOrdering_def recentEpisodesResultOf_def matchingRecentEpisodes_def
  generateEpisodeSelects_def limitEpisodesQuerySize_def andWhere_def idsOf_def
  getManyAndCount_def getMany_def paged_def ordered_def rowMatches_def cleanEpisodes_def
  appliesLimiting_def restrictsToPublic_def popularitySorts_def recentEpisodesQuery_def
  selectedRows_def sendsEmptyIn_def emptyInError_def pageOf_def

lemma appliesLimiting_wheres:
  "appliesLimiting qbs = list_ex (list_ex isLimitingClause) (map qb_wheres qbs)"
  by (simp add: appliesLimiting_def list_ex_iff)

lemma restrictsToPublic_wheres:
  "restrictsToPublic qbs = list_ex (\<lambda>ws. IsPublicTrue \<in> set ws) (map qb_wheres qbs)"
  by (simp add: restrictsToPublic_def list_ex_iff)

lemma handleGetEpisodesWithOrdering_wheres:
  "map qb_wheres (snd (handleGetEpisodesWithOrdering en qb q skip sort' take' w)) = [qb_wheres qb]"
  by (simp add: handleGetEpisodesWithOrdering_def Let_def split: sum.splits)

lemma handleMostRecentEpisodesQuery_wheres:
  "map qb_wheres (snd (handleMostRecentEpisodesQuery en qb type ids skip take' w)) = [] \<or>
   (\<exists>recentEpisodeIds. map qb_wheres (snd (handleMostRecentEpisodesQuery en qb type ids skip take' w)) =
       [qb_wheres qb @ [EpisodeIdIn recentEpisodeIds]])"
  by (simp add: handleMostRecentEpisodesQuery_def Let_def andWhere_def split: sum.splits)

lemma generateEpisodeSelects_plain:
  "\<not> list_ex isLimitingClause (qb_wheres (generateEpisodeSelects ip txt)) \<and>
   IsPublicTrue \<notin> set (qb_wheres (generateEpisodeSelects ip txt))"
  by (simp add: generateEpisodeSelects_def)

lemma limitEpisodesQuerySize_limiting:
  "list_ex isLimitingClause (qb_wheres (limitEpisodesQuerySize now qb shouldLimit sort')) =
     (list_ex isLimitingClause (qb_wheres qb) \<or>
      shouldLimit \<and> (sort' \<in> set popularitySorts \<or> sort' = ''most-recent''))"
  by (auto simp: limitEpisodesQuerySize_def andWhere_def popularitySorts_def)

lemma limitEpisodesQuerySize_public:
  "(IsPublicTrue \<in> set (qb_wheres (limitEpisodesQuerySize now qb shouldLimit sort'))) =
     (IsPublicTrue \<in> set (qb_wheres qb))"
  by (auto simp: limitEpisodesQuerySize_def andWhere_def)

lemma most_recent_not_popularity: "''most-recent'' \<notin> set popularitySorts"
  by (simp add: popularitySorts_def)

text \<open>
  Claim C8, as amended. In \<open>getEpisodesByPodcastIds\<close> a query that was run carries a
  clause of \<open>limitEpisodesQuerySize\<close> exactly when more than 10 podcast ids are asked
  for and the sort is one of the six popularity sorts (\<^verbatim>\<open>top-past-hour\<close> to
  \<^verbatim>\<open>top-all-time\<close>): with the sort \<^verbatim>\<open>most-recent\<close> and a number of ids other than one
  the listing goes through the recency table and never calls \<open>limitEpisodesQuerySize\<close>,
  and for any other sort the function adds no clause. In particular a query with
  exactly one podcast id goes through \<open>getEpisodesByPodcastId\<close> and never carries a
  limiting clause, whatever the sort.
\<close>

theorem getEpisodesByPodcastIds_limiting:
  "appliesLimiting (snd (getEpisodesByPodcastIds en now q w)) =
     (10 < length (idsOf (q_podcastId q)) \<and> q_sort q \<in> set popularitySorts) \<and>
   (length (idsOf (q_podcastId q)) = 1 \<longrightarrow>
      \<not> appliesLimiting (snd (getEpisodesByPodcastIds en now q w)))"
proof -
  let ?ids = "idsOf (q_podcastId q)"
  let ?base = "generateEpisodeSelects (q_includePodcast q) (q_searchAllFieldsText q)"
  have main: "appliesLimiting (snd (getEpisodesByPodcastIds en now q w)) =
     (10 < length ?ids \<and> q_sort q \<in> set popularitySorts)"
  proof (cases "length ?ids = 1")
    case True
    then show ?thesis
      by (simp add: getEpisodesByPodcastIds_def getEpisodesByPodcastId_def Let_def
          appliesLimiting_wheres handleGetEpisodesWithOrdering_wheres andWhere_def
          generateEpisodeSelects_plain)
  next
    case False
    show ?thesis
    proof (cases "q_sort q = ''most-recent''")
      case True
      have "\<not> list_ex (list_ex isLimitingClause) (map qb_wheres
          (snd (handleMostRecentEpisodesQuery en ?base ''podcastIds'' ?ids (q_skip q) (q_take q) w)))"
        using handleMostRecentEpisodesQuery_wheres
          [of en ?base "''podcastIds''" ?ids "q_skip q" "q_take q" w]
        using generateEpisodeSelects_plain [of "q_includePodcast q" "q_searchAllFieldsText q"]
        by auto
      with True False show ?thesis
        by (simp add: getEpisodesByPodcastIds_def Let_def appliesLimiting_wheres
            most_recent_not_popularity)
    next
      case notrecent: False
      with False show ?thesis
        by (simp add: getEpisodesByPodcastIds_def Let_def appliesLimiting_wheres
            handleGetEpisodesWithOrdering_wheres andWhere_def limitEpisodesQuerySize_limiting
            generateEpisodeSelects_plain)
    qed
  qed
  then show ?thesis by simp
qed

text \<open>
  The amended property at inputs: one podcast id with a popularity sort runs a query
  without a limiting clause; eleven ids with the same sort run one with it.
\<close>

theorem getEpisodesByPodcastIds_limiting_witness:
  "length (idsOf (q_podcastId (exQuery ''top-past-week'' None (Some ''p1'')))) = 1 \<and>
   snd (getEpisodesByPodcastIds exEnv 0 (exQuery ''top-past-week'' None (Some ''p1'')) exListingWorld) =
     [\<lparr>qb_joins = [InnerJoinPodcast False],
       qb_wheres = [WhereTrue, PodcastIdIn [''p1''], IsPublicTrue],
       qb_offset = Some 0, qb_limit = Some 20,
       qb_orderBy = Some (''episode.pubDate'', Some ''DESC'')\<rparr>] \<and>
   \<not> appliesLimiting
       (snd (getEpisodesByPodcastIds exEnv 0 (exQuery ''top-past-week'' None (Some ''p1'')) exListingWorld)) \<and>
   appliesLimiting
       (snd (getEpisodesByPodcastIds exEnv 0
          (exQuery ''top-past-week'' None (Some ''a,b,c,d,e,f,g,h,i,j,k'')) exListingWorld))"
  using getEpisodesByPodcastIds_limiting [where en = exEnv and now = 0 and q = "exQuery ''top-past-week'' None (Some ''p1'')"
      and w = exListingWorld]
  by (simp add: ex_defs listing_defs exListingWorld_def Let_def)

text \<open>
  Claim C8 as it is written fails: with eleven podcast ids, more than 10, neither the
  sort \<^verbatim>\<open>most-recent\<close> nor the sort \<^verbatim>\<open>random\<close> runs a query with a limiting clause.
\<close>

theorem getEpisodesByPodcastIds_limiting_counterexample:
  "10 < length (idsOf (q_podcastId (exQuery ''most-recent'' None (Some ''a,b,c,d,e,f,g,h,i,j,k'')))) \<and>
   \<not> appliesLimiting (snd (getEpisodesByPodcastIds exEnv 0
        (exQuery ''most-recent'' None (Some ''a,b,c,d,e,f,g,h,i,j,k'')) exListingWorld)) \<and>
   \<not> appliesLimiting (snd (getEpisodesByPodcastIds exEnv 0
        (exQuery ''random'' None (Some ''a,b,c,d,e,f,g,h,i,j,k'')) exListingWorld))"
  by (simp add: ex_defs listing_defs exListingWorld_def Let_def)

lemma handleMostRecentEpisodesQuery_empty:
  "ids \<noteq> [] \<Longrightarrow> matchingRecentEpisodes type ids w = [] \<Longrightarrow>
   handleMostRecentEpisodesQuery en qb type ids skip take' w = (Inr ([], 0), [])"
  by (simp add: handleMostRecentEpisodesQuery_def recentEpisodesQuery_def
      recentEpisodesResultOf_def Let_def)

text \<open>
  With at least one id: when no row of the recency table has one of the ids as its
  grouping key, the two listings that go through \<open>handleMostRecentEpisodesQuery\<close> return
  the empty page with the count 0 and send no query to the episode table.
\<close>

lemma most_recent_empty_projection:
  "(q_sort q = ''most-recent'' \<and> idsOf (q_categories q) \<noteq> [] \<and>
    matchingRecentEpisodes ''categoriesIds'' (idsOf (q_categories q)) w = [] \<longrightarrow>
      getEpisodesByCategoryIds en now q w = (Inr ([], 0), [])) \<and>
   (q_sort q = ''most-recent'' \<and> idsOf (q_podcastId q) \<noteq> [] \<and>
    length (idsOf (q_podcastId q)) \<noteq> 1 \<and>
    matchingRecentEpisodes ''podcastIds'' (idsOf (q_podcastId q)) w = [] \<longrightarrow>
      getEpisodesByPodcastIds en now q w = (Inr ([], 0), []))"
  by (simp add: handleMostRecentEpisodesQuery_empty getEpisodesByCategoryIds_def
      getEpisodesByPodcastIds_def Let_def)

lemma most_recent_empty_projection_example:
  "matchingRecentEpisodes ''categoriesIds'' (idsOf (q_categories (exQuery ''most-recent'' (Some ''c7,c8'') None)))
     exListingWorld = [] \<and>
   episodes exListingWorld \<noteq> [] \<and>
   getEpisodesByCategoryIds exEnv 0 (exQuery ''most-recent'' (Some ''c7,c8'') None) exListingWorld =
     (Inr ([], 0), []) \<and>
   getEpisodesByPodcastIds exEnv 0 (exQuery ''most-recent'' None (Some ''p7,p8'')) exListingWorld =
     (Inr ([], 0), [])"
  by (simp add: ex_defs listing_defs exListingWorld_def Let_def)

text \<open>
  Claim C9, evaluated on the code. A request with the sort \<^verbatim>\<open>most-recent\<close> and no
  \<^verbatim>\<open>categories\<close> (or no \<^verbatim>\<open>podcastId\<close>): lines 173 and 205 make the id list empty, no row
  of the recency table matches it, and the statement of lines 117-128 is sent with
  \<^verbatim>\<open>IN ()\<close>. The listing throws the \<^verbatim>\<open>QueryFailedError\<close>; it does not return the empty
  page with the count 0. The guard of line 131 is not reached.
\<close>

theorem most_recent_empty_ids_rejected:
  "idsOf (q_categories (exQuery ''most-recent'' None None)) = [] \<and>
   idsOf (q_podcastId (exQuery ''most-recent'' None None)) = [] \<and>
   matchingRecentEpisodes ''categoriesIds'' [] exListingWorld = [] \<and>
   matchingRecentEpisodes ''podcastIds'' [] exListingWorld = [] \<and>
   getEpisodesByCategoryIds exEnv 0 (exQuery ''most-recent'' None None) exListingWorld =
     (Inl (QueryFailedError ''syntax error at or near )''), []) \<and>
   getEpisodesByPodcastIds exEnv 0 (exQuery ''most-recent'' None None) exListingWorld =
     (Inl (QueryFailedError ''syntax error at or near )''), [])"
  by (simp add: ex_defs listing_defs exListingWorld_def Let_def)

lemma set_paged: "set (paged off lim xs) \<subseteq> set xs"
  by (auto simp: paged_def Let_def split: option.splits dest: in_set_takeD in_set_dropD)

lemma set_ordered: "set (ordered en ob xs) = set xs"
  by (simp add: ordered_def split: option.splits prod.splits)

lemma selectedRows_matches:
  "x \<in> set (selectedRows en qb w) \<Longrightarrow> x \<in> set (episodes w) \<and> rowMatches en w qb x"
  using set_paged [of "qb_offset qb" "qb_limit qb" "ordered en (qb_orderBy qb) (filter (rowMatches en w qb) (episodes w))"]
  by (auto simp: selectedRows_def set_ordered)

lemma cleanEpisodes_public:
  "x \<in> set (cleanEpisodes xs) \<Longrightarrow> \<exists>y \<in> set xs. ep_id x = ep_id y \<and> ep_isPublic x = ep_isPublic y"
  by (auto simp: cleanEpisodes_def)

lemma handleGetEpisodesWithOrdering_page:
  "\<exists>qb2. qb_wheres qb2 = qb_wheres qb \<and>
     set (pageOf (handleGetEpisodesWithOrdering en qb q skip sort' take' w)) \<subseteq>
       set (cleanEpisodes (selectedRows en qb2 w))"
proof (cases "q_sort q = ''random''")
  case True
  show ?thesis
    by (rule exI [of _ "qb\<lparr>qb_offset := Some skip, qb_limit := Some take',
          qb_orderBy := Some (fst (getQueryOrderColumn en ''episode'' sort' ''pubDate''), None)\<rparr>"])
       (simp add: handleGetEpisodesWithOrdering_def Let_def getManyAndCount_def pageOf_def True)
next
  case False
  show ?thesis
    by (rule exI [of _ "qb\<lparr>qb_offset := Some skip, qb_limit := Some take',
          qb_orderBy := Some (fst (getQueryOrderColumn en ''episode'' sort' ''pubDate''),
            Some (snd (getQueryOrderColumn en ''episode'' sort' ''pubDate'')))\<rparr>"])
       (simp add: handleGetEpisodesWithOrdering_def Let_def getManyAndCount_def pageOf_def False)
qed

lemma handleGetEpisodesWithOrdering_public:
  assumes "IsPublicTrue \<in> set (qb_wheres qb)"
    and "x \<in> set (pageOf (handleGetEpisodesWithOrdering en qb q skip sort' take' w))"
  shows "ep_isPublic x"
proof -
  obtain qb2 where qb2: "qb_wheres qb2 = qb_wheres qb"
    and x: "x \<in> set (cleanEpisodes (selectedRows en qb2 w))"
    using assms(2) handleGetEpisodesWithOrdering_page [of qb en q skip sort' take' w] by auto
  from x obtain y where y: "y \<in> set (selectedRows en qb2 w)" and p: "ep_isPublic x = ep_isPublic y"
    by (blast dest: cleanEpisodes_public)
  from y have "rowMatches en w qb2 y" by (simp add: selectedRows_matches)
  then have "whereHolds en y IsPublicTrue"
    using assms(1) qb2 by (auto simp: rowMatches_def list_all_iff)
  with p show ?thesis by simp
qed

lemma recent_page_nonempty:
  assumes "fst (recentEpisodesResultOf type ids skip take' w) \<noteq> []"
  shows "snd (recentEpisodesResultOf type ids skip take' w) \<noteq> 0 \<and> ids \<noteq> []"
proof -
  have "set (fst (recentEpisodesResultOf type ids skip take' w)) \<subseteq>
      set (matchingRecentEpisodes type ids w)"
    using set_paged [of "Some skip" "Some take'"
        "rev (sort_key re_pubDate (matchingRecentEpisodes type ids w))"]
    by (simp add: recentEpisodesResultOf_def Let_def)
  with assms have ne: "matchingRecentEpisodes type ids w \<noteq> []" by auto
  then have "ids \<noteq> []" by (auto simp: matchingRecentEpisodes_def)
  with ne show ?thesis by (simp add: recentEpisodesResultOf_def Let_def)
qed

lemma handleMostRecentEpisodesQuery_includes:
  assumes e: "e \<in> set (episodes w)"
    and page: "ep_id e \<in> set (map re_episodeId (fst (recentEpisodesResultOf type ids skip take' w)))"
    and base: "rowMatches en w qb e"
    and plain: "qb_offset qb = None" "qb_limit qb = None" "qb_orderBy qb = None"
    and accepted: "\<not> sendsEmptyIn qb"
  shows "\<exists>x \<in> set (pageOf (handleMostRecentEpisodesQuery en qb type ids skip take' w)).
           ep_id x = ep_id e \<and> ep_isPublic x = ep_isPublic e"
proof -
  let ?page = "fst (recentEpisodesResultOf type ids skip take' w)"
  let ?qb' = "andWhere (EpisodeIdIn (map re_episodeId ?page)) qb"
  from page have ne: "?page \<noteq> []" by auto
  then have cnt: "snd (recentEpisodesResultOf type ids skip take' w) \<noteq> 0" and ids: "ids \<noteq> []"
    using recent_page_nonempty [of type ids skip take' w] by simp_all
  have sent: "\<not> sendsEmptyIn ?qb'"
    using accepted ne by (simp add: sendsEmptyIn_def andWhere_def)
  have res: "pageOf (handleMostRecentEpisodesQuery en qb type ids skip take' w) =
      cleanEpisodes (selectedRows en ?qb' w)"
    using ne cnt ids sent
    by (simp add: handleMostRecentEpisodesQuery_def recentEpisodesQuery_def getMany_def
        pageOf_def Let_def)
  have "rowMatches en w ?qb' e"
    using base page by (simp add: rowMatches_def andWhere_def)
  with e have "e \<in> set (selectedRows en ?qb' w)"
    using plain by (simp add: selectedRows_def andWhere_def paged_def ordered_def)
  then show ?thesis
    unfolding res by (force simp: cleanEpisodes_def)
qed

text \<open>
  Claim C10. Neither listing that goes through the recency table (by category ids, or
  by a number of podcast ids other than one, with the sort \<^verbatim>\<open>most-recent\<close>) runs a
  query with the clause \<^verbatim>\<open>episode."isPublic" IS true\<close>: a stored episode that is not
  public, that the base query of \<open>generateEpisodeSelects\<close> keeps (its podcast exists and
  its title matches the search text, if one is given) and whose id is on the page read
  from the recency table, is on the returned page. Every other listing path (all
  episodes; by category ids with another sort; by one podcast id; by podcast ids with
  another sort) returns public episodes only.
\<close>

theorem most_recent_paths_not_public_only:
  "(q_sort q = ''most-recent'' \<longrightarrow>
      \<not> restrictsToPublic (snd (getEpisodesByCategoryIds en now q w))) \<and>
   (q_sort q = ''most-recent'' \<and> length (idsOf (q_podcastId q)) \<noteq> 1 \<longrightarrow>
      \<not> restrictsToPublic (snd (getEpisodesByPodcastIds en now q w))) \<and>
   (\<forall>e. q_sort q = ''most-recent'' \<and> e \<in> set (episodes w) \<and> \<not> ep_isPublic e \<and>
        rowMatches en w (generateEpisodeSelects (q_includePodcast q) (q_searchAllFieldsText q)) e \<and>
        ep_id e \<in> set (map re_episodeId (fst (recentEpisodesResultOf ''categoriesIds''
            (idsOf (q_categories q)) (q_skip q) (q_take q) w))) \<longrightarrow>
        (\<exists>x \<in> set (pageOf (getEpisodesByCategoryIds en now q w)).
            ep_id x = ep_id e \<and> \<not> ep_isPublic x)) \<and>
   (\<forall>e. q_sort q = ''most-recent'' \<and> length (idsOf (q_podcastId q)) \<noteq> 1 \<and>
        e \<in> set (episodes w) \<and> \<not> ep_isPublic e \<and>
        rowMatches en w (generateEpisodeSelects (q_includePodcast q) (q_searchAllFieldsText q)) e \<and>
        ep_id e \<in> set (map re_episodeId (fst (recentEpisodesResultOf ''podcastIds''
            (idsOf (q_podcastId q)) (q_skip q) (q_take q) w))) \<longrightarrow>
        (\<exists>x \<in> set (pageOf (getEpisodesByPodcastIds en now q w)).
            ep_id x = ep_id e \<and> \<not> ep_isPublic x)) \<and>
   (\<forall>x \<in> set (pageOf (getEpisodes en now q w)). ep_isPublic x) \<and>
   (q_sort q \<noteq> ''most-recent'' \<longrightarrow>
      (\<forall>x \<in> set (pageOf (getEpisodesByCategoryIds en now q w)). ep_isPublic x)) \<and>
   (length (idsOf (q_podcastId q)) = 1 \<or> q_sort q \<noteq> ''most-recent'' \<longrightarrow>
      (\<forall>x \<in> set (pageOf (getEpisodesByPodcastIds en now q w)). ep_isPublic x))"
proof -
  let ?base = "generateEpisodeSelects (q_includePodcast q) (q_searchAllFieldsText q)"
  have plain: "qb_offset ?base = None" "qb_limit ?base = None" "qb_orderBy ?base = None"
    by (simp_all add: generateEpisodeSelects_def)
  have accepted: "\<not> sendsEmptyIn ?base"
    by (simp add: generateEpisodeSelects_def sendsEmptyIn_def)
  have nopub: "\<not> restrictsToPublic (snd (handleMostRecentEpisodesQuery en ?base type ids skip take' w))"
    for type ids skip take'
    using handleMostRecentEpisodesQuery_wheres [of en ?base type ids skip take' w]
      generateEpisodeSelects_plain [of "q_includePodcast q" "q_searchAllFieldsText q"]
    by (auto simp: restrictsToPublic_wheres)
  have a: "q_sort q = ''most-recent'' \<longrightarrow>
      \<not> restrictsToPublic (snd (getEpisodesByCategoryIds en now q w))"
    using nopub by (simp add: getEpisodesByCategoryIds_def Let_def)
  have b: "q_sort q = ''most-recent'' \<and> length (idsOf (q_podcastId q)) \<noteq> 1 \<longrightarrow>
      \<not> restrictsToPublic (snd (getEpisodesByPodcastIds en now q w))"
    using nopub by (simp add: getEpisodesByPodcastIds_def Let_def)
  have incl: "\<exists>x \<in> set (pageOf (handleMostRecentEpisodesQuery en ?base type ids skip take' w)).
            ep_id x = ep_id e \<and> \<not> ep_isPublic x"
    if "e \<in> set (episodes w)" "\<not> ep_isPublic e" "rowMatches en w ?base e"
      "ep_id e \<in> set (map re_episodeId (fst (recentEpisodesResultOf type ids skip take' w)))"
    for e type ids skip take'
    using handleMostRecentEpisodesQuery_includes [OF that(1) that(4) that(3) plain accepted] that(2)
    by auto
  have c: "\<forall>e. q_sort q = ''most-recent'' \<and> e \<in> set (episodes w) \<and> \<not> ep_isPublic e \<and>
        rowMatches en w ?base e \<and>
        ep_id e \<in> set (map re_episodeId (fst (recentEpisodesResultOf ''categoriesIds''
            (idsOf (q_categories q)) (q_skip q) (q_take q) w))) \<longrightarrow>
        (\<exists>x \<in> set (pageOf (getEpisodesByCategoryIds en now q w)).
            ep_id x = ep_id e \<and> \<not> ep_isPublic x)"
    using incl by (simp add: getEpisodesByCategoryIds_def Let_def)
  have d: "\<forall>e. q_sort q = ''most-recent'' \<and> length (idsOf (q_podcastId q)) \<noteq> 1 \<and>
        e \<in> set (episodes w) \<and> \<not> ep_isPublic e \<and>
        rowMatches en w ?base e \<and>
        ep_id e \<in> set (map re_episodeId (fst (recentEpisodesResultOf ''podcastIds''
            (idsOf (q_podcastId q)) (q_skip q) (q_take q) w))) \<longrightarrow>
        (\<exists>x \<in> set (pageOf (getEpisodesByPodcastIds en now q w)).
            ep_id x = ep_id e \<and> \<not> ep_isPublic x)"
    using incl by (simp add: getEpisodesByPodcastIds_def Let_def)
  have e: "\<forall>x \<in> set (pageOf (getEpisodes en now q w)). ep_isPublic x"
    by (auto simp: getEpisodes_def Let_def andWhere_def
        intro!: handleGetEpisodesWithOrdering_public [rotated])
  have f: "q_sort q \<noteq> ''most-recent'' \<longrightarrow>
      (\<forall>x \<in> set (pageOf (getEpisodesByCategoryIds en now q w)). ep_isPublic x)"
    by (auto simp: getEpisodesByCategoryIds_def Let_def andWhere_def
        intro!: handleGetEpisodesWithOrdering_public [rotated])
  have g: "length (idsOf (q_podcastId q)) = 1 \<or> q_sort q \<noteq> ''most-recent'' \<longrightarrow>
      (\<forall>x \<in> set (pageOf (getEpisodesByPodcastIds en now q w)). ep_isPublic x)"
    by (auto simp: getEpisodesByPodcastIds_def getEpisodesByPodcastId_def Let_def andWhere_def
        intro!: handleGetEpisodesWithOrdering_public [rotated])
  from a b c d e f g show ?thesis by blast
qed

text \<open>
  The property at an input: the non-public episode \<open>e2\<close> is in both recency tables. The
  two listings through the recency table return it; the listing by the single podcast
  \<open>p1\<close> and the listing by category with the sort \<^verbatim>\<open>random\<close> do not.
\<close>

theorem most_recent_paths_not_public_only_witness:
  "q_sort (exQuery ''most-recent'' (Some ''c1'') (Some ''p1,p2'')) = ''most-recent'' \<and>
   length (idsOf (q_podcastId (exQuery ''most-recent'' (Some ''c1'') (Some ''p1,p2'')))) \<noteq> 1 \<and>
   exEpisode ''e2'' False None None \<in> set (episodes exListingWorld) \<and>
   \<not> ep_isPublic (exEpisode ''e2'' False None None) \<and>
   rowMatches exEnv exListingWorld (generateEpisodeSelects False []) (exEpisode ''e2'' False None None) \<and>
   map re_episodeId (fst (recentEpisodesResultOf ''categoriesIds'' [''c1''] 0 20 exListingWorld)) =
     [''e2'', ''e1''] \<and>
   map (\<lambda>x. (ep_id x, ep_isPublic x))
     (pageOf (getEpisodesByCategoryIds exEnv 0
        (exQuery ''most-recent'' (Some ''c1'') (Some ''p1,p2'')) exListingWorld)) =
     [(''e1'', True), (''e2'', False)] \<and>
   map (\<lambda>x. (ep_id x, ep_isPublic x))
     (pageOf (getEpisodesByPodcastIds exEnv 0
        (exQuery ''most-recent'' (Some ''c1'') (Some ''p1,p2'')) exListingWorld)) =
     [(''e1'', True), (''e2'', False)] \<and>
   map (\<lambda>x. (ep_id x, ep_isPublic x))
     (pageOf (getEpisodesByPodcastIds exEnv 0
        (exQuery ''most-recent'' None (Some ''p1'')) exListingWorld)) = [(''e1'', True)] \<and>
   map (\<lambda>x. (ep_id x, ep_isPublic x))
     (pageOf (getEpisodesByCategoryIds exEnv 0
        (exQuery ''random'' (Some ''c1'') None) exListingWorld)) = [(''e1'', True)]"
  using most_recent_paths_not_public_only [where en = exEnv and now = 0 and w = exListingWorld
      and q = "exQuery ''most-recent'' (Some ''c1'') (Some ''p1,p2'')"]
  by (simp add: ex_defs listing_defs exListingWorld_def Let_def)

end
